theory Spec2Isabelle
  imports Main "HOL-Library.Word" "HOL-Library.Signed_Division"
begin

section \<open>Common types\<close>

type_synonym u32 = "32 word"
type_synonym u64 = "64 word"

text \<open>
  Every \<^verbatim>\<open>ASSERT\<close>, every failed framebuffer set-up and every read through a null
  pointer or past the end of an array is a value of this type; a function that can reach
  one returns \<open>error + 'a\<close>.
\<close>

datatype error =
    FramebufferIncomplete int int int bool
  | BadViewportSize int int
  | NullMonitor
  | NullWindow
  | NullGraphicsData
  | IndexOutOfBounds int int

text \<open>
  The source computes window positions and sizes in 32-bit \<^verbatim>\<open>int\<close>. The model keeps
  such values as integers and writes the wrap-around out: \<open>int32 x\<close> is the value a
  32-bit two's complement \<^verbatim>\<open>int\<close> holds after an operation whose exact result
  is \<open>x\<close>.
\<close>

definition int32 :: "int \<Rightarrow> int" where
  "int32 x = (x + 2147483648) mod 4294967296 - 2147483648"

section \<open>Target resolver (OpenGLRenderer.cpp)\<close>

subsection \<open>The OpenGL object names\<close>

text \<open>
  Of the OpenGL context the model keeps the object names: how many framebuffer, texture
  and renderbuffer names have been generated so far and which framebuffer names are
  alive. \<^verbatim>\<open>glGen*\<close> hands out the next unused name, \<^verbatim>\<open>glDeleteFramebuffers\<close>
  retires one. Binding, clearing and viewport calls draw, they do not allocate, and are
  left out.
\<close>

record GLState =
  fbos_generated :: nat
  textures_generated :: nat
  renderbuffers_generated :: nat
  live_fbos :: "nat list"

definition glGenFramebuffers :: "GLState \<Rightarrow> nat \<times> GLState" where
  "glGenFramebuffers gl =
     (let name = Suc (fbos_generated gl)
      in (name, gl\<lparr>fbos_generated := name, live_fbos := name # live_fbos gl\<rparr>))"

definition glGenTextures :: "GLState \<Rightarrow> nat \<times> GLState" where
  "glGenTextures gl =
     (let name = Suc (textures_generated gl) in (name, gl\<lparr>textures_generated := name\<rparr>))"

definition glGenRenderbuffers :: "GLState \<Rightarrow> nat \<times> GLState" where
  "glGenRenderbuffers gl =
     (let name = Suc (renderbuffers_generated gl)
      in (name, gl\<lparr>renderbuffers_generated := name\<rparr>))"

definition glDeleteFramebuffers :: "nat \<Rightarrow> GLState \<Rightarrow> GLState" where
  "glDeleteFramebuffers name gl = gl\<lparr>live_fbos := removeAll name (live_fbos gl)\<rparr>"

subsection \<open>Fbo\<close>

text \<open>
  The fields are the ones \<^verbatim>\<open>make_fbo\<close> and \<^verbatim>\<open>setup_frame\<close> assign. The window's
  framebuffer has the name 0.
\<close>

record Fbo =
  valid :: bool
  fbo_id :: nat
  tex_id :: "nat option"
  zbuf_stencil_id :: "nat option"
  multisampled :: bool
  multisample_count :: int
  is_window :: bool
  width :: int
  height :: int

text \<open>
  Modelled from the spec: \<^verbatim>\<open>Fbo::matches\<close> is declared in OpenGLRenderer.h, which is
  not among the sources. The spec compares the target's (width, height, sampleCount) with
  the desired tuple; a target that holds no framebuffer matches nothing.
\<close>

definition matches :: "Fbo \<Rightarrow> int \<Rightarrow> int \<Rightarrow> int \<Rightarrow> bool" where
  "matches f w h msaa \<longleftrightarrow>
     valid f \<and> width f = w \<and> height f = h \<and> multisample_count f = msaa"

text \<open>
  Modelled from the spec: \<^verbatim>\<open>Fbo::clear\<close> is declared in OpenGLRenderer.h as well.
  The spec destroys the previously held non-window targets: a target that holds a
  framebuffer gives it back and is invalid afterwards, one that holds none is left alone.
\<close>

definition clear :: "Fbo \<Rightarrow> GLState \<Rightarrow> Fbo \<times> GLState" where
  "clear f gl =
     (if valid f
      then (f\<lparr>valid := False, tex_id := None, zbuf_stencil_id := None\<rparr>,
            glDeleteFramebuffers (fbo_id f) gl)
      else (f, gl))"

text \<open>
  \<^verbatim>\<open>make_fbo\<close>. The answer of \<^verbatim>\<open>glCheckFramebufferStatus\<close> is the driver's:
  \<open>complete w h msaa zbuf\<close> says whether the framebuffer just built is complete. On an
  incomplete one the source logs and runs into \<^verbatim>\<open>ASSERT(false)\<close>.
\<close>

definition make_fbo ::
  "(int \<Rightarrow> int \<Rightarrow> int \<Rightarrow> bool \<Rightarrow> bool) \<Rightarrow> GLState \<Rightarrow> int \<Rightarrow> int \<Rightarrow> int \<Rightarrow> bool
     \<Rightarrow> error + (Fbo \<times> GLState)" where
  "make_fbo complete gl w h msaa make_zbuf_and_stencil =
     (let use_multisample = (msaa > 1);
          (fbo, gl1) = glGenFramebuffers gl;
          (tex, gl2) = glGenTextures gl1;
          (zbuf, gl3) =
            (if make_zbuf_and_stencil
             then (let (z, g) = glGenRenderbuffers gl2 in (Some z, g))
             else (None, gl2))
      in if \<not> complete w h msaa make_zbuf_and_stencil
         then Inl (FramebufferIncomplete w h msaa make_zbuf_and_stencil)
         else Inr (\<lparr>valid = True, fbo_id = fbo, tex_id = Some tex, zbuf_stencil_id = zbuf,
                     multisampled = use_multisample, multisample_count = msaa,
                     is_window = False, width = w, height = h\<rparr>, gl3))"

subsection \<open>The resolver's state\<close>

text \<open>
  \<^verbatim>\<open>m_fbo_state.render_fbo\<close> is a pointer into \<^verbatim>\<open>m_fbo_state.resources\<close>: null, or
  the address of the window's entry or of the render buffer. Reading through it reads the
  entry as it is at that moment.
\<close>

datatype FboPtr = Null | WindowPtr | RenderBufferPtr

record FboResources =
  window :: Fbo
  render_buffer :: Fbo
  resolve_buffer :: Fbo

record FboState =
  render_fbo :: FboPtr
  resources :: FboResources

fun deref :: "FboResources \<Rightarrow> FboPtr \<Rightarrow> Fbo option" where
  "deref r Null = None"
| "deref r WindowPtr = Some (window r)"
| "deref r RenderBufferPtr = Some (render_buffer r)"

record RenderOptions =
  window_framebuffer_height :: int
  window_framebuffer_width :: int
  draw_region_height :: int
  draw_region_width :: int
  game_res_w :: int
  game_res_h :: int
  msaa_samples :: int
  save_screenshot :: bool
  gpu_sync :: bool

text \<open>
  The first lines of \<^verbatim>\<open>setup_frame\<close>: the window's entry follows the size of
  the window's framebuffer, which the window toolkit owns.
\<close>

definition update_window_fb :: "RenderOptions \<Rightarrow> Fbo \<Rightarrow> Fbo" where
  "update_window_fb settings window_fb =
     window_fb\<lparr>valid := True, is_window := True, fbo_id := 0,
       width := window_framebuffer_width settings,
       height := window_framebuffer_height settings,
       multisample_count := 1, multisampled := False\<rparr>"

text \<open>
  The condition \<^verbatim>\<open>render_fbo->matches(...)\<close>, read through the pointer; the
  source evaluates it only where the pointer is not null.
\<close>

definition still_applicable :: "FboResources \<Rightarrow> FboPtr \<Rightarrow> RenderOptions \<Rightarrow> bool" where
  "still_applicable r p settings =
     (case deref r p of
        None \<Rightarrow> False
      | Some f \<Rightarrow> matches f (game_res_w settings) (game_res_h settings) (msaa_samples settings))"

text \<open>
  The body of \<^verbatim>\<open>if (!render_fbo || window_resized || !render_fbo->matches(...))\<close>:
  both offscreen targets are cleared, then either the window is taken or a render buffer
  is made, and with it a resolve buffer when the sample counts differ.
\<close>

definition resolve_targets ::
  "(int \<Rightarrow> int \<Rightarrow> int \<Rightarrow> bool \<Rightarrow> bool) \<Rightarrow> RenderOptions \<Rightarrow> FboResources \<Rightarrow> GLState
     \<Rightarrow> error + (FboState \<times> GLState)" where
  "resolve_targets complete settings r gl =
     (let (rb, gl1) = clear (render_buffer r) gl;
          (rs, gl2) = clear (resolve_buffer r) gl1;
          r2 = r\<lparr>render_buffer := rb, resolve_buffer := rs\<rparr>
      in if matches (window r) (game_res_w settings) (game_res_h settings) (msaa_samples settings)
         then Inr (\<lparr>render_fbo = WindowPtr, resources = r2\<rparr>, gl2)
         else
           (case make_fbo complete gl2 (game_res_w settings) (game_res_h settings)
                   (msaa_samples settings) True of
              Inl e \<Rightarrow> Inl e
            | Inr (rb', gl3) \<Rightarrow>
                (let r3 = r2\<lparr>render_buffer := rb'\<rparr>;
                     msaa_matches = (multisample_count (window r) = msaa_samples settings)
                 in if \<not> msaa_matches
                    then
                      (case make_fbo complete gl3 (game_res_w settings) (game_res_h settings)
                              1 False of
                         Inl e \<Rightarrow> Inl e
                       | Inr (rs', gl4) \<Rightarrow>
                           Inr (\<lparr>render_fbo = RenderBufferPtr,
                                  resources = r3\<lparr>resolve_buffer := rs'\<rparr>\<rparr>, gl4))
                    else Inr (\<lparr>render_fbo = RenderBufferPtr, resources = r3\<rparr>, gl3))))"

text \<open>
  \<^verbatim>\<open>setup_frame\<close> up to its assertion on the game resolution. What follows the
  assertion binds, clears and sets the viewport and changes neither the targets nor the
  object names.
\<close>

definition needs_resolve :: "FboState \<Rightarrow> RenderOptions \<Rightarrow> bool" where
  "needs_resolve s settings =
     (let window_resized =
            (width (window (resources s)) \<noteq> window_framebuffer_width settings \<or>
             height (window (resources s)) \<noteq> window_framebuffer_height settings);
          r1 = (resources s)\<lparr>window := update_window_fb settings (window (resources s))\<rparr>
      in render_fbo s = Null \<or> window_resized \<or> \<not> still_applicable r1 (render_fbo s) settings)"

definition setup_frame ::
  "(int \<Rightarrow> int \<Rightarrow> int \<Rightarrow> bool \<Rightarrow> bool) \<Rightarrow> RenderOptions \<Rightarrow> FboState \<times> GLState
     \<Rightarrow> error + (FboState \<times> GLState)" where
  "setup_frame complete settings sg =
     (let (s, gl) = sg;
          r1 = (resources s)\<lparr>window := update_window_fb settings (window (resources s))\<rparr>;
          resolved =
            (if needs_resolve s settings
             then resolve_targets complete settings r1 gl
             else Inr (s\<lparr>resources := r1\<rparr>, gl))
      in case resolved of
           Inl e \<Rightarrow> Inl e
         | Inr out \<Rightarrow>
             if game_res_w settings > 0 \<and> game_res_h settings > 0
             then Inr out
             else Inl (BadViewportSize (game_res_w settings) (game_res_h settings)))"

text \<open>
  The renderer calls \<^verbatim>\<open>setup_frame\<close> once per rendered frame. \<open>setup_frames\<close> is
  that sequence of calls, one per entry of the list, stopping at the first failure.
\<close>

fun setup_frames ::
  "(int \<Rightarrow> int \<Rightarrow> int \<Rightarrow> bool \<Rightarrow> bool) \<Rightarrow> RenderOptions list \<Rightarrow> FboState \<times> GLState
     \<Rightarrow> error + (FboState \<times> GLState)" where
  "setup_frames complete [] sg = Inr sg"
| "setup_frames complete (settings # rest) sg =
     (case setup_frame complete settings sg of
        Inl e \<Rightarrow> Inl e
      | Inr sg' \<Rightarrow> setup_frames complete rest sg')"

text \<open>
  What every sequence of calls keeps true of the resolver's state: while the window is the
  target there is no offscreen target, and a render buffer is never the target while the
  window, as it was last seen, would have done as well.
\<close>

definition targets_consistent :: "FboState \<Rightarrow> bool" where
  "targets_consistent s =
     (case render_fbo s of
        Null \<Rightarrow> True
      | WindowPtr \<Rightarrow>
          \<not> valid (render_buffer (resources s)) \<and> \<not> valid (resolve_buffer (resources s))
      | RenderBufferPtr \<Rightarrow>
          \<not> (width (window (resources s)) = width (render_buffer (resources s)) \<and>
             height (window (resources s)) = height (render_buffer (resources s)) \<and>
             multisample_count (render_buffer (resources s)) = 1))"

section \<open>Frame channel and frame pacer (opengl.cpp)\<close>

datatype RuntimeExitStatus = RUNNING | RESTART_RUNTIME | EXIT | RESTART_IN_DEBUG

text \<open>
  Modelled from the spec: \<^verbatim>\<open>FixedChunkDmaCopier\<close> is declared in
  common/dma/dma_copy.h, which is not among the sources. The spec's publish copies or
  references the buffer: \<^verbatim>\<open>set_input_data\<close> keeps the buffer's address and the offset,
  and \<^verbatim>\<open>get_last_input_data\<close>, \<^verbatim>\<open>get_last_input_offset\<close> give them back.
\<close>

record FixedChunkDmaCopier =
  get_last_input_data :: nat
  get_last_input_offset :: u32

definition set_input_data :: "nat \<Rightarrow> u32 \<Rightarrow> bool \<Rightarrow> FixedChunkDmaCopier \<Rightarrow> FixedChunkDmaCopier" where
  "set_input_data data offset run_copy c =
     c\<lparr>get_last_input_data := data, get_last_input_offset := offset\<rparr>"

text \<open>
  \<^verbatim>\<open>GraphicsData\<close>, without the mutexes and condition variables (the model runs one
  operation at a time), the timers and the debug GUI.
\<close>

record GraphicsData =
  frame_idx :: u64
  frame_idx_of_input_data :: u64
  has_data_to_render :: bool
  dma_copier :: FixedChunkDmaCopier
  ogl_renderer :: FboState

record GraphicsGlobalSettings =
  LetterBoxedWidth :: int
  LetterBoxedHeight :: int
  GameResolutionWidth :: int
  GameResolutionHeight :: int
  MSAAsamples :: int
  IsVsyncEnabled :: bool
  IsOldVsyncEnabled :: bool

text \<open>
  The globals of opengl.cpp and Graphics.cpp that the two threads share, the OpenGL object
  names, and what \<^verbatim>\<open>lg::error\<close> has written.
\<close>

record Runtime =
  g_graphics_data :: "GraphicsData option"
  MasterExit :: RuntimeExitStatus
  g_global_settings :: GraphicsGlobalSettings
  gl_objects :: GLState
  lg_error :: "string list"

definition run_dma_copy :: bool where
  "run_dma_copy = False"

definition gl_send_chain :: "nat \<Rightarrow> u32 \<Rightarrow> Runtime \<Rightarrow> Runtime" where
  "gl_send_chain data offset rt =
     (case g_graphics_data rt of
        None \<Rightarrow> rt
      | Some g \<Rightarrow>
          if has_data_to_render g
          then rt\<lparr>lg_error := lg_error rt @
                 [''Graphics::send_chain called when the graphics renderer has pending data. Was this called multiple times per frame?'']\<rparr>
          else rt\<lparr>g_graphics_data :=
                 Some (g\<lparr>dma_copier := set_input_data data offset run_dma_copy (dma_copier g),
                          has_data_to_render := True\<rparr>)\<rparr>)"

text \<open>
  \<^verbatim>\<open>cv.wait(lock, pred)\<close> returns once \<open>pred\<close> holds. In a state where it does not
  hold the caller stays blocked: the operation has no result there, which is \<open>None\<close>.
\<close>

definition cv_wait :: "bool \<Rightarrow> 'a \<Rightarrow> 'a option" where
  "cv_wait pred result = (if pred then Some result else None)"

text \<open>The predicate \<^verbatim>\<open>gl_vsync\<close> waits on.\<close>

definition gl_vsync_pred :: "RuntimeExitStatus \<Rightarrow> GraphicsData \<Rightarrow> u64 \<Rightarrow> bool" where
  "gl_vsync_pred master_exit g init_frame \<longleftrightarrow> master_exit \<noteq> RUNNING \<or> frame_idx g > init_frame"

definition gl_vsync :: "Runtime \<Rightarrow> u32 option" where
  "gl_vsync rt =
     (case g_graphics_data rt of
        None \<Rightarrow> Some 0
      | Some g \<Rightarrow>
          (let init_frame = frame_idx_of_input_data g
           in cv_wait (gl_vsync_pred (MasterExit rt) g init_frame) (ucast (and (frame_idx g) 1))))"

text \<open>The predicate \<^verbatim>\<open>gl_sync_path\<close> waits on.\<close>

definition gl_sync_path_pred :: "RuntimeExitStatus \<Rightarrow> GraphicsData \<Rightarrow> bool" where
  "gl_sync_path_pred master_exit g \<longleftrightarrow> \<not> has_data_to_render g"

definition gl_sync_path :: "Runtime \<Rightarrow> u32 option" where
  "gl_sync_path rt =
     (case g_graphics_data rt of
        None \<Rightarrow> Some 0
      | Some g \<Rightarrow>
          if \<not> has_data_to_render g then Some 0
          else cv_wait (gl_sync_path_pred (MasterExit rt) g) 0)"

text \<open>
  Modelled from the spec: \<^verbatim>\<open>OpenGlDebugGui\<close> is declared in DebugGui.h, which is not
  among the sources. These are its answers to the render thread during one iteration.
\<close>

record DebugGui =
  should_advance_frame :: bool
  should_gl_finish :: bool
  get_screenshot_flag :: bool
  screenshot_width :: int
  screenshot_height :: int
  screenshot_samples :: int

text \<open>
  \<^verbatim>\<open>OpenGLRenderer::render\<close>: the frame set-up; the screenshot that may follow reads
  pixels back and writes a file.
\<close>

definition OpenGLRenderer_render ::
  "(int \<Rightarrow> int \<Rightarrow> int \<Rightarrow> bool \<Rightarrow> bool) \<Rightarrow> RenderOptions \<Rightarrow> FboState \<times> GLState
     \<Rightarrow> error + (FboState \<times> GLState)" where
  "OpenGLRenderer_render complete settings sg = setup_frame complete settings sg"

text \<open>The options \<^verbatim>\<open>render_game_frame\<close> builds for the renderer.\<close>

definition make_options ::
  "DebugGui \<Rightarrow> int \<Rightarrow> int \<Rightarrow> int \<Rightarrow> int \<Rightarrow> int \<Rightarrow> int \<Rightarrow> int \<Rightarrow> int \<Rightarrow> RenderOptions" where
  "make_options gui msaa_max game_width game_height window_fb_width window_fb_height
       draw_region_w draw_region_h msaa =
     (let options = \<lparr>window_framebuffer_height = window_fb_height,
                      window_framebuffer_width = window_fb_width,
                      draw_region_height = draw_region_h,
                      draw_region_width = draw_region_w,
                      game_res_w = game_width, game_res_h = game_height,
                      msaa_samples = msaa, save_screenshot = False,
                      gpu_sync = should_gl_finish gui\<rparr>;
          options = (if get_screenshot_flag gui
                     then options\<lparr>save_screenshot := True,
                            game_res_w := screenshot_width gui,
                            game_res_h := screenshot_height gui,
                            draw_region_width := screenshot_width gui,
                            draw_region_height := screenshot_height gui,
                            msaa_samples := screenshot_samples gui\<rparr>
                     else options)
      in if msaa_samples options > msaa_max then options\<lparr>msaa_samples := msaa_max\<rparr>
         else options)"

text \<open>
  \<^verbatim>\<open>render_game_frame\<close>. The timed wait returns the value its predicate has when the
  wait ends: \<open>got_chain\<close> is \<open>has_data_to_render\<close> as the consumer finds it. The last
  block runs whether or not a chain was found.
\<close>

definition render_game_frame ::
  "(int \<Rightarrow> int \<Rightarrow> int \<Rightarrow> bool \<Rightarrow> bool) \<Rightarrow> DebugGui \<Rightarrow> int
     \<Rightarrow> int \<Rightarrow> int \<Rightarrow> int \<Rightarrow> int \<Rightarrow> int \<Rightarrow> int \<Rightarrow> int \<Rightarrow> Runtime \<Rightarrow> error + Runtime" where
  "render_game_frame complete gui msaa_max game_width game_height window_fb_width
       window_fb_height draw_region_w draw_region_h msaa rt =
     (case g_graphics_data rt of
        None \<Rightarrow> Inl NullGraphicsData
      | Some g \<Rightarrow>
          (let got_chain = has_data_to_render g;
               rendered =
                 (if got_chain
                  then
                    (let g1 = g\<lparr>frame_idx_of_input_data := frame_idx g\<rparr>;
                         options = make_options gui msaa_max game_width game_height
                                     window_fb_width window_fb_height draw_region_w
                                     draw_region_h msaa
                     in case OpenGLRenderer_render complete options
                               (ogl_renderer g1, gl_objects rt) of
                          Inl e \<Rightarrow> Inl e
                        | Inr (r, gl') \<Rightarrow> Inr (g1\<lparr>ogl_renderer := r\<rparr>, gl'))
                  else Inr (g, gl_objects rt))
           in case rendered of
                Inl e \<Rightarrow> Inl e
              | Inr (g2, gl') \<Rightarrow>
                  Inr (rt\<lparr>g_graphics_data := Some (g2\<lparr>has_data_to_render := False\<rparr>),
                          gl_objects := gl'\<rparr>)))"

section \<open>Display state machine (Display.h, opengl.cpp)\<close>

text \<open>
  \<^verbatim>\<open>GraphicsDisplayMode\<close>. \<open>NoMode\<close> is \<^verbatim>\<open>(GraphicsDisplayMode)-1\<close>, the value
  \<^verbatim>\<open>m_fullscreen_mode\<close> starts with to force a first update.
\<close>

datatype GraphicsDisplayMode = Windowed | Fullscreen | Borderless | NoMode

subsection \<open>The window toolkit\<close>

record GLFWvidmode =
  vm_width :: int
  vm_height :: int
  redBits :: int
  greenBits :: int
  blueBits :: int
  refreshRate :: int

text \<open>
  What the display asks of a monitor: its position, its work area and its current video
  mode.
\<close>

record GLFWmonitor =
  monitor_xpos :: int
  monitor_ypos :: int
  workarea_x :: int
  workarea_y :: int
  workarea_width :: int
  workarea_height :: int
  video_mode :: GLFWvidmode

text \<open>
  A window: the geometry and the monitor last given to \<^verbatim>\<open>glfwSetWindowMonitor\<close> (no
  monitor for a windowed window), its attributes, and the size of its framebuffer.
\<close>

record GLFWwindow =
  win_monitor :: "GLFWmonitor option"
  win_xpos :: int
  win_ypos :: int
  win_width :: int
  win_height :: int
  decorated :: bool
  floating :: bool
  framebuffer_width :: int
  framebuffer_height :: int

definition glfwSetWindowMonitor ::
  "GLFWmonitor option \<Rightarrow> int \<Rightarrow> int \<Rightarrow> int \<Rightarrow> int \<Rightarrow> GLFWwindow \<Rightarrow> GLFWwindow" where
  "glfwSetWindowMonitor monitor x y w h win =
     win\<lparr>win_monitor := monitor, win_xpos := x, win_ypos := y, win_width := w,
         win_height := h\<rparr>"

subsection \<open>GraphicsDisplay and OpenGLDisplay\<close>

record OpenGLDisplay =
  m_fullscreen_screen :: int
  m_fullscreen_target_screen :: int
  m_fullscreen_target_mode :: GraphicsDisplayMode
  m_fullscreen_mode :: GraphicsDisplayMode
  m_last_fullscreen_mode :: GraphicsDisplayMode
  m_last_windowed_xpos :: int
  m_last_windowed_ypos :: int
  m_last_windowed_width :: int
  m_last_windowed_height :: int
  m_window :: "GLFWwindow option"
  m_minimized :: bool
  m_last_video_mode :: GLFWvidmode

definition is_active :: "OpenGLDisplay \<Rightarrow> bool" where
  "is_active d \<longleftrightarrow> m_window d \<noteq> None"

definition set_fullscreen :: "GraphicsDisplayMode \<Rightarrow> int \<Rightarrow> OpenGLDisplay \<Rightarrow> OpenGLDisplay" where
  "set_fullscreen mode screen d =
     d\<lparr>m_fullscreen_target_mode := mode, m_fullscreen_target_screen := screen\<rparr>"

definition update_last_fullscreen_mode :: "OpenGLDisplay \<Rightarrow> OpenGLDisplay" where
  "update_last_fullscreen_mode d = d\<lparr>m_last_fullscreen_mode := m_fullscreen_mode d\<rparr>"

definition windowed :: "OpenGLDisplay \<Rightarrow> bool" where
  "windowed d \<longleftrightarrow> m_fullscreen_mode d = Windowed"

definition minimized :: "OpenGLDisplay \<Rightarrow> bool" where
  "minimized d = m_minimized d"

text \<open>The callbacks the toolkit delivers while events are polled.\<close>

definition on_window_pos :: "int \<Rightarrow> int \<Rightarrow> OpenGLDisplay \<Rightarrow> OpenGLDisplay" where
  "on_window_pos xpos ypos d =
     (if m_fullscreen_target_mode d = Windowed
      then d\<lparr>m_last_windowed_xpos := xpos, m_last_windowed_ypos := ypos\<rparr>
      else d)"

definition on_window_size :: "int \<Rightarrow> int \<Rightarrow> OpenGLDisplay \<Rightarrow> OpenGLDisplay" where
  "on_window_size w h d =
     (if m_fullscreen_target_mode d = Windowed
      then d\<lparr>m_last_windowed_width := w, m_last_windowed_height := h\<rparr>
      else d)"

definition on_iconify :: "bool \<Rightarrow> OpenGLDisplay \<Rightarrow> OpenGLDisplay" where
  "on_iconify iconified d = d\<lparr>m_minimized := iconified\<rparr>"

text \<open>
  \<^verbatim>\<open>get_monitor\<close>: an index outside the list falls back to the primary monitor. With
  no monitor at all the source reads the first entry of an empty array.
\<close>

definition get_monitor :: "GLFWmonitor list \<Rightarrow> int \<Rightarrow> error + GLFWmonitor" where
  "get_monitor monitors index =
     (let index = (if index < 0 \<or> index \<ge> int (length monitors) then 0 else index)
      in if nat index < length monitors then Inr (monitors ! nat index) else Inl NullMonitor)"

text \<open>
  \<^verbatim>\<open>update_fullscreen\<close>. \<open>win32\<close> stands for \<^verbatim>\<open>#ifdef _WIN32\<close>. The divisions are
  C's, which truncate; each sum and difference is a 32-bit one.
\<close>

definition update_fullscreen ::
  "bool \<Rightarrow> GLFWmonitor list \<Rightarrow> GraphicsDisplayMode \<Rightarrow> int \<Rightarrow> OpenGLDisplay
     \<Rightarrow> error + OpenGLDisplay" where
  "update_fullscreen win32 monitors mode screen d =
     (case get_monitor monitors screen of
        Inl e \<Rightarrow> Inl e
      | Inr monitor \<Rightarrow>
          (case mode of
             NoMode \<Rightarrow> Inr d
           | Windowed \<Rightarrow>
               (case m_window d of
                  None \<Rightarrow> Inl NullWindow
                | Some win \<Rightarrow>
                    (let w = m_last_windowed_width d;
                         h = m_last_windowed_height d;
                         (x, y) =
                           (if m_last_fullscreen_mode d = Windowed
                            then (m_last_windowed_xpos d, m_last_windowed_ypos d)
                            else (int32 (int32 (workarea_x monitor + (workarea_width monitor sdiv 2))
                                           - (w sdiv 2)),
                                  int32 (int32 (workarea_y monitor + (workarea_height monitor sdiv 2))
                                           - (h sdiv 2))));
                         win1 = glfwSetWindowMonitor None x y w h
                                  (win\<lparr>decorated := True, floating := False\<rparr>)
                     in Inr (d\<lparr>m_window := Some win1,
                               m_last_windowed_width := w, m_last_windowed_height := h,
                               m_last_windowed_xpos := x, m_last_windowed_ypos := y\<rparr>)))
           | Fullscreen \<Rightarrow>
               (case m_window d of
                  None \<Rightarrow> Inl NullWindow
                | Some win \<Rightarrow>
                    (let vmode = video_mode monitor
                     in Inr (d\<lparr>m_window := Some
                               (glfwSetWindowMonitor (Some monitor) 0 0 (vm_width vmode)
                                  (vm_height vmode)
                                  (win\<lparr>decorated := False, floating := False\<rparr>))\<rparr>)))
           | Borderless \<Rightarrow>
               (case m_window d of
                  None \<Rightarrow> Inl NullWindow
                | Some win \<Rightarrow>
                    (let vmode = video_mode monitor
                     in Inr (d\<lparr>m_window := Some
                               (glfwSetWindowMonitor None (monitor_xpos monitor)
                                  (monitor_ypos monitor) (vm_width vmode)
                                  (if win32 then int32 (vm_height vmode + 1) else vm_height vmode)
                                  (win\<lparr>decorated := False\<rparr>))\<rparr>)))))"

text \<open>\<^verbatim>\<open>GraphicsDisplay::fullscreen_pending\<close>, the base class's answer.\<close>

definition GraphicsDisplay_fullscreen_pending :: "OpenGLDisplay \<Rightarrow> bool" where
  "GraphicsDisplay_fullscreen_pending d \<longleftrightarrow>
     m_fullscreen_mode d \<noteq> m_fullscreen_target_mode d \<or>
     m_fullscreen_screen d \<noteq> m_fullscreen_target_screen d"

text \<open>\<^verbatim>\<open>OpenGLDisplay::fullscreen_pending\<close>.\<close>

definition fullscreen_pending :: "GLFWmonitor list \<Rightarrow> OpenGLDisplay \<Rightarrow> error + bool" where
  "fullscreen_pending monitors d =
     (case get_monitor monitors (m_fullscreen_screen d) of
        Inl e \<Rightarrow> Inl e
      | Inr monitor \<Rightarrow>
          (let vmode = video_mode monitor
           in Inr (GraphicsDisplay_fullscreen_pending d \<or>
                   (vm_width vmode \<noteq> vm_width (m_last_video_mode d) \<or>
                    vm_height vmode \<noteq> vm_height (m_last_video_mode d) \<or>
                    refreshRate vmode \<noteq> refreshRate (m_last_video_mode d)))))"

text \<open>\<^verbatim>\<open>GraphicsDisplay::fullscreen_flush\<close>.\<close>

definition GraphicsDisplay_fullscreen_flush ::
  "bool \<Rightarrow> GLFWmonitor list \<Rightarrow> OpenGLDisplay \<Rightarrow> error + OpenGLDisplay" where
  "GraphicsDisplay_fullscreen_flush win32 monitors d =
     (case update_fullscreen win32 monitors (m_fullscreen_target_mode d)
             (m_fullscreen_target_screen d) d of
        Inl e \<Rightarrow> Inl e
      | Inr d1 \<Rightarrow>
          Inr (d1\<lparr>m_fullscreen_mode := m_fullscreen_target_mode d1,
                  m_fullscreen_screen := m_fullscreen_target_screen d1\<rparr>))"

text \<open>\<^verbatim>\<open>OpenGLDisplay::fullscreen_flush\<close>.\<close>

definition fullscreen_flush ::
  "bool \<Rightarrow> GLFWmonitor list \<Rightarrow> OpenGLDisplay \<Rightarrow> error + OpenGLDisplay" where
  "fullscreen_flush win32 monitors d =
     (case GraphicsDisplay_fullscreen_flush win32 monitors d of
        Inl e \<Rightarrow> Inl e
      | Inr d1 \<Rightarrow>
          (case get_monitor monitors (m_fullscreen_screen d1) of
             Inl e \<Rightarrow> Inl e
           | Inr monitor \<Rightarrow> Inr (d1\<lparr>m_last_video_mode := video_mode monitor\<rparr>)))"

text \<open>
  The block \<^verbatim>\<open>// update fullscreen mode, if requested\<close> of \<^verbatim>\<open>OpenGLDisplay::render\<close>,
  the only place that flushes.
\<close>

definition render_update_fullscreen ::
  "bool \<Rightarrow> GLFWmonitor list \<Rightarrow> OpenGLDisplay \<Rightarrow> error + OpenGLDisplay" where
  "render_update_fullscreen win32 monitors d =
     (let d1 = update_last_fullscreen_mode d
      in case fullscreen_pending monitors d1 of
           Inl e \<Rightarrow> Inl e
         | Inr pending \<Rightarrow>
             if pending \<and> \<not> minimized d1 then fullscreen_flush win32 monitors d1
             else Inr d1)"

section \<open>Presentation loop (opengl.cpp)\<close>

text \<open>
  What one iteration of \<^verbatim>\<open>OpenGLDisplay::render\<close> finds outside the program: the
  monitor list of \<^verbatim>\<open>g_glfw_state\<close>, the debug GUI's answers, \<^verbatim>\<open>GL_MAX_SAMPLES\<close>
  and whether the user has closed the window.
\<close>

record RenderEnv =
  env_monitors :: "GLFWmonitor list"
  env_gui :: DebugGui
  env_max_samples :: int
  env_window_should_close :: bool

text \<open>
  \<^verbatim>\<open>OpenGLDisplay::render\<close>: the game frame, if the debug GUI lets the frame advance;
  the vsync switch; the frame counter, once in every iteration; the display mode; the exit
  status when the window was closed. The callbacks that polling delivers at the top are the
  \<open>on_\<close> functions above, applied before the iteration.
\<close>

definition render ::
  "bool \<Rightarrow> (int \<Rightarrow> int \<Rightarrow> int \<Rightarrow> bool \<Rightarrow> bool) \<Rightarrow> RenderEnv \<Rightarrow> Runtime \<times> OpenGLDisplay
     \<Rightarrow> error + (Runtime \<times> OpenGLDisplay)" where
  "render win32 complete env rd =
     (let (rt, d) = rd
      in case m_window d of
           None \<Rightarrow> Inl NullWindow
         | Some win \<Rightarrow>
             (let fbuf_w = framebuffer_width win;
                  fbuf_h = framebuffer_height win;
                  gs = g_global_settings rt;
                  bad = (GameResolutionWidth gs \<le> 0 \<or> GameResolutionHeight gs \<le> 0);
                  game_res_w = (if bad then 640 else GameResolutionWidth gs);
                  game_res_h = (if bad then 480 else GameResolutionHeight gs);
                  frame =
                    (if should_advance_frame (env_gui env)
                     then render_game_frame complete (env_gui env) (env_max_samples env)
                            game_res_w game_res_h fbuf_w fbuf_h (LetterBoxedWidth gs)
                            (LetterBoxedHeight gs) (MSAAsamples gs) rt
                     else Inr rt)
              in case frame of
                   Inl e \<Rightarrow> Inl e
                 | Inr rt1 \<Rightarrow>
                     (let gs1 = g_global_settings rt1;
                          rt2 = (if IsVsyncEnabled gs1 \<noteq> IsOldVsyncEnabled gs1
                                 then rt1\<lparr>g_global_settings :=
                                        gs1\<lparr>IsOldVsyncEnabled := IsVsyncEnabled gs1\<rparr>\<rparr>
                                 else rt1)
                      in case g_graphics_data rt2 of
                           None \<Rightarrow> Inl NullGraphicsData
                         | Some g \<Rightarrow>
                             (let rt3 = rt2\<lparr>g_graphics_data :=
                                          Some (g\<lparr>frame_idx := frame_idx g + 1\<rparr>)\<rparr>
                              in case render_update_fullscreen win32 (env_monitors env) d of
                                   Inl e \<Rightarrow> Inl e
                                 | Inr d1 \<Rightarrow>
                                     Inr (if env_window_should_close env
                                          then rt3\<lparr>MasterExit := EXIT\<rparr> else rt3, d1)))))"

text \<open>
  A run of the two threads, one operation at a time: the producer publishes a chain, the
  consumer goes through one iteration of its loop.
\<close>

datatype event = SendChain nat u32 | RenderIteration RenderEnv

fun is_render :: "event \<Rightarrow> bool" where
  "is_render (RenderIteration env) = True"
| "is_render (SendChain data offset) = False"

fun run ::
  "bool \<Rightarrow> (int \<Rightarrow> int \<Rightarrow> int \<Rightarrow> bool \<Rightarrow> bool) \<Rightarrow> event list \<Rightarrow> Runtime \<times> OpenGLDisplay
     \<Rightarrow> error + (Runtime \<times> OpenGLDisplay)" where
  "run win32 complete [] rd = Inr rd"
| "run win32 complete (SendChain data offset # evs) rd =
     run win32 complete evs (gl_send_chain data offset (fst rd), snd rd)"
| "run win32 complete (RenderIteration env # evs) rd =
     (case render win32 complete env rd of
        Inl e \<Rightarrow> Inl e
      | Inr rd' \<Rightarrow> run win32 complete evs rd')"

section \<open>Graphics queries (Graphics.cpp, Display.cpp)\<close>

text \<open>
  \<^verbatim>\<open>Display::g_displays\<close> is the list of displays, the main one first.
  \<^verbatim>\<open>GetMainDisplay\<close> is null when the list is empty or its first display has no window.
\<close>

definition GetMainDisplay :: "OpenGLDisplay list \<Rightarrow> OpenGLDisplay option" where
  "GetMainDisplay g_displays =
     (case g_displays of
        [] \<Rightarrow> None
      | front # _ \<Rightarrow> if is_active front then Some front else None)"

definition GraphicsDisplay_width :: "OpenGLDisplay \<Rightarrow> error + int" where
  "GraphicsDisplay_width d =
     (case m_window d of None \<Rightarrow> Inl NullWindow | Some win \<Rightarrow> Inr (framebuffer_width win))"

definition GraphicsDisplay_height :: "bool \<Rightarrow> OpenGLDisplay \<Rightarrow> error + int" where
  "GraphicsDisplay_height win32 d =
     (case m_window d of
        None \<Rightarrow> Inl NullWindow
      | Some win \<Rightarrow>
          Inr (if win32 \<and> m_last_fullscreen_mode d = Borderless
               then int32 (framebuffer_height win - 1) else framebuffer_height win))"

text \<open>
  The queries return their answer together with the display list as they leave it. The
  answers are \<^verbatim>\<open>u64\<close>, converted from \<^verbatim>\<open>int\<close>.
\<close>

definition get_window_width :: "OpenGLDisplay list \<Rightarrow> (error + u64) \<times> OpenGLDisplay list" where
  "get_window_width g_displays =
     (case GetMainDisplay g_displays of
        Some d \<Rightarrow> (map_sum id word_of_int (GraphicsDisplay_width d), g_displays)
      | None \<Rightarrow> (Inr 0, g_displays))"

definition get_window_height ::
  "bool \<Rightarrow> OpenGLDisplay list \<Rightarrow> (error + u64) \<times> OpenGLDisplay list" where
  "get_window_height win32 g_displays =
     (case GetMainDisplay g_displays of
        Some d \<Rightarrow> (map_sum id word_of_int (GraphicsDisplay_height win32 d), g_displays)
      | None \<Rightarrow> (Inr 0, g_displays))"

definition get_fullscreen :: "OpenGLDisplay list \<Rightarrow> GraphicsDisplayMode \<times> OpenGLDisplay list" where
  "get_fullscreen g_displays =
     (case GetMainDisplay g_displays of
        Some d \<Rightarrow> (m_fullscreen_mode d, g_displays)
      | None \<Rightarrow> (Windowed, g_displays))"

section \<open>Button mapping (Graphics.cpp, Peripherals.h)\<close>

definition CONTROLLER_COUNT :: int where
  "CONTROLLER_COUNT = 2"

definition Button_Max :: int where
  "Button_Max = 16"

text \<open>
  \<^verbatim>\<open>ControllerButtonMapping\<close> and \<^verbatim>\<open>KeyboardButtonMapping\<close> are declared
  \<^verbatim>\<open>int [CONTROLLER_COUNT][(int)Button::Max]\<close>: lists of \<open>CONTROLLER_COUNT\<close> rows of
  \<open>Button_Max\<close> entries.
\<close>

record MappingInfo =
  ControllerButtonMapping :: "int list list"
  KeyboardButtonMapping :: "int list list"

text \<open>Reading a C array: an index outside the array is an error of the model.\<close>

definition array_read :: "'a list \<Rightarrow> int \<Rightarrow> error + 'a" where
  "array_read xs i =
     (if 0 \<le> i \<and> i < int (length xs) then Inr (xs ! nat i)
      else Inl (IndexOutOfBounds i (int (length xs))))"

definition array_read2 :: "'a list list \<Rightarrow> int \<Rightarrow> int \<Rightarrow> error + 'a" where
  "array_read2 xss i j =
     (case array_read xss i of Inl e \<Rightarrow> Inl e | Inr row \<Rightarrow> array_read row j)"

text \<open>
  The shape the declarations give the tables and \<^verbatim>\<open>g_gamepads.gamepad_idx\<close>:
  \<open>CONTROLLER_COUNT\<close> rows of \<open>Button_Max\<close> entries, and \<open>CONTROLLER_COUNT\<close>
  joystick indices.
\<close>

definition declared_shape :: "int list \<Rightarrow> MappingInfo \<Rightarrow> bool" where
  "declared_shape gamepad_idx mapping \<longleftrightarrow>
     length gamepad_idx = nat CONTROLLER_COUNT \<and>
     length (ControllerButtonMapping mapping) = nat CONTROLLER_COUNT \<and>
     list_all (\<lambda>row. length row = nat Button_Max) (ControllerButtonMapping mapping) \<and>
     length (KeyboardButtonMapping mapping) = nat CONTROLLER_COUNT \<and>
     list_all (\<lambda>row. length row = nat Button_Max) (KeyboardButtonMapping mapping)"

text \<open>
  \<^verbatim>\<open>GetGamepadState\<close> reads \<^verbatim>\<open>g_gamepads.gamepad_idx\<close>, an array of
  \<open>CONTROLLER_COUNT\<close> joystick indices.
\<close>

definition GetGamepadState :: "int list \<Rightarrow> int \<Rightarrow> error + int" where
  "GetGamepadState gamepad_idx pad = array_read gamepad_idx pad"

text \<open>The parameter check of \<^verbatim>\<open>get_mapped_button\<close>: true where it lets the call through.\<close>

definition get_mapped_button_valid :: "int \<Rightarrow> int \<Rightarrow> bool" where
  "get_mapped_button_valid pad button \<longleftrightarrow>
     \<not> (pad < 0 \<or> pad > CONTROLLER_COUNT \<or> button < 0 \<or> button > 16)"

definition get_mapped_button :: "int list \<Rightarrow> MappingInfo \<Rightarrow> int \<Rightarrow> int \<Rightarrow> error + int" where
  "get_mapped_button gamepad_idx mapping pad button =
     (if \<not> get_mapped_button_valid pad button then Inr (- 1)
      else
        (case GetGamepadState gamepad_idx pad of
           Inl e \<Rightarrow> Inl e
         | Inr state \<Rightarrow>
             if state > - 1 then array_read2 (ControllerButtonMapping mapping) pad button
             else array_read2 (KeyboardButtonMapping mapping) pad button))"

section \<open>The spec's readings that the code is compared with\<close>

text \<open>
  The spec's \<open>pending()\<close>, in its own words: the current mode differs from the target
  mode, or the display is in a fullscreen-like state and the monitor's video mode
  (resolution, refresh rate) is no longer the one seen at the last flush.
\<close>

definition fullscreen_like :: "GraphicsDisplayMode \<Rightarrow> bool" where
  "fullscreen_like mode \<longleftrightarrow> mode = Fullscreen \<or> mode = Borderless"

definition spec_pending :: "GLFWvidmode \<Rightarrow> OpenGLDisplay \<Rightarrow> bool" where
  "spec_pending vmode d \<longleftrightarrow>
     m_fullscreen_mode d \<noteq> m_fullscreen_target_mode d \<or>
     (fullscreen_like (m_fullscreen_mode d) \<and>
      (vm_width vmode \<noteq> vm_width (m_last_video_mode d) \<or>
       vm_height vmode \<noteq> vm_height (m_last_video_mode d) \<or>
       refreshRate vmode \<noteq> refreshRate (m_last_video_mode d)))"

text \<open>
  The round trip of the spec: Fullscreen is requested and the loop's next iteration flushes
  it, then Windowed is requested and flushed the same way. Nothing moves or resizes the
  window in between.
\<close>

definition fullscreen_round_trip ::
  "bool \<Rightarrow> GLFWmonitor list \<Rightarrow> int \<Rightarrow> OpenGLDisplay \<Rightarrow> error + OpenGLDisplay" where
  "fullscreen_round_trip win32 monitors screen d =
     (case render_update_fullscreen win32 monitors (set_fullscreen Fullscreen screen d) of
        Inl e \<Rightarrow> Inl e
      | Inr d1 \<Rightarrow> render_update_fullscreen win32 monitors (set_fullscreen Windowed screen d1))"

text \<open>Position and size of the display's window, as last given to the toolkit.\<close>

definition window_geometry :: "OpenGLDisplay \<Rightarrow> (int \<times> int \<times> int \<times> int) option" where
  "window_geometry d =
     (case m_window d of
        None \<Rightarrow> None
      | Some win \<Rightarrow> Some (win_xpos win, win_ypos win, win_width win, win_height win))"

definition geometry_after :: "error + OpenGLDisplay \<Rightarrow> (int \<times> int \<times> int \<times> int) option" where
  "geometry_after res = (case res of Inl e \<Rightarrow> None | Inr d \<Rightarrow> window_geometry d)"

text \<open>The frame counter and the pending flag of a runtime, and of the outcome of a run.\<close>

definition frame_index :: "Runtime \<Rightarrow> u64 option" where
  "frame_index rt = map_option frame_idx (g_graphics_data rt)"

definition pending_data :: "Runtime \<Rightarrow> bool option" where
  "pending_data rt = map_option has_data_to_render (g_graphics_data rt)"

definition frame_index_after :: "error + Runtime \<times> OpenGLDisplay \<Rightarrow> u64 option" where
  "frame_index_after res = (case res of Inl e \<Rightarrow> None | Inr rd \<Rightarrow> frame_index (fst rd))"

definition frame_index_of :: "error + Runtime \<Rightarrow> u64 option" where
  "frame_index_of res = (case res of Inl e \<Rightarrow> None | Inr rt \<Rightarrow> frame_index rt)"

section \<open>Concrete states\<close>

definition no_fbo :: Fbo where
  "no_fbo = \<lparr>valid = False, fbo_id = 0, tex_id = None, zbuf_stencil_id = None,
              multisampled = False, multisample_count = 0, is_window = False,
              width = 640, height = 480\<rparr>"

definition fresh_fbo_state :: FboState where
  "fresh_fbo_state =
     \<lparr>render_fbo = Null,
      resources = \<lparr>window = no_fbo, render_buffer = no_fbo, resolve_buffer = no_fbo\<rparr>\<rparr>"

definition fresh_gl :: GLState where
  "fresh_gl = \<lparr>fbos_generated = 0, textures_generated = 0, renderbuffers_generated = 0,
                live_fbos = []\<rparr>"

definition always_complete :: "int \<Rightarrow> int \<Rightarrow> int \<Rightarrow> bool \<Rightarrow> bool" where
  "always_complete w h msaa zbuf = True"

definition options_for :: "int \<Rightarrow> int \<Rightarrow> int \<Rightarrow> int \<Rightarrow> int \<Rightarrow> RenderOptions" where
  "options_for window_w window_h game_w game_h msaa =
     \<lparr>window_framebuffer_height = window_h, window_framebuffer_width = window_w,
      draw_region_height = game_h, draw_region_width = game_w,
      game_res_w = game_w, game_res_h = game_h, msaa_samples = msaa,
      save_screenshot = False, gpu_sync = False\<rparr>"

definition idle_graphics_data :: GraphicsData where
  "idle_graphics_data =
     \<lparr>frame_idx = 0, frame_idx_of_input_data = 0, has_data_to_render = False,
      dma_copier = \<lparr>get_last_input_data = 0, get_last_input_offset = 0\<rparr>,
      ogl_renderer = fresh_fbo_state\<rparr>"

definition default_settings :: GraphicsGlobalSettings where
  "default_settings =
     \<lparr>LetterBoxedWidth = 640, LetterBoxedHeight = 480, GameResolutionWidth = 640,
      GameResolutionHeight = 480, MSAAsamples = 4, IsVsyncEnabled = True,
      IsOldVsyncEnabled = False\<rparr>"

definition idle_runtime :: Runtime where
  "idle_runtime =
     \<lparr>g_graphics_data = Some idle_graphics_data, MasterExit = RUNNING,
      g_global_settings = default_settings, gl_objects = fresh_gl, lg_error = []\<rparr>"

text \<open>A chain has been published and not yet rendered; the frame counter stands at 5.\<close>

definition pending_graphics_data :: GraphicsData where
  "pending_graphics_data =
     \<lparr>frame_idx = 5, frame_idx_of_input_data = 5, has_data_to_render = True,
      dma_copier = \<lparr>get_last_input_data = 4096, get_last_input_offset = 100\<rparr>,
      ogl_renderer = fresh_fbo_state\<rparr>"

definition pending_runtime :: Runtime where
  "pending_runtime =
     \<lparr>g_graphics_data = Some pending_graphics_data, MasterExit = RUNNING,
      g_global_settings = default_settings, gl_objects = fresh_gl, lg_error = []\<rparr>"

text \<open>The same, after the window was closed.\<close>

definition exiting_runtime :: Runtime where
  "exiting_runtime =
     \<lparr>g_graphics_data = Some pending_graphics_data, MasterExit = EXIT,
      g_global_settings = default_settings, gl_objects = fresh_gl, lg_error = []\<rparr>"

definition vmode_1080p :: GLFWvidmode where
  "vmode_1080p = \<lparr>vm_width = 1920, vm_height = 1080, redBits = 8, greenBits = 8,
                  blueBits = 8, refreshRate = 60\<rparr>"

definition vmode_720p :: GLFWvidmode where
  "vmode_720p = \<lparr>vm_width = 1280, vm_height = 720, redBits = 8, greenBits = 8,
                 blueBits = 8, refreshRate = 60\<rparr>"

definition primary_monitor :: GLFWmonitor where
  "primary_monitor =
     \<lparr>monitor_xpos = 0, monitor_ypos = 0, workarea_x = 0, workarea_y = 0,
      workarea_width = 1920, workarea_height = 1040, video_mode = vmode_1080p\<rparr>"

definition example_window :: GLFWwindow where
  "example_window =
     \<lparr>win_monitor = None, win_xpos = 100, win_ypos = 100, win_width = 640, win_height = 480,
      decorated = True, floating = False, framebuffer_width = 640, framebuffer_height = 480\<rparr>"

text \<open>
  A display that has been windowed at (100, 100), 640 by 480, for some iterations, on a
  monitor in 1920 by 1080 at 60 Hz.
\<close>

definition windowed_display :: OpenGLDisplay where
  "windowed_display =
     \<lparr>m_fullscreen_screen = 0, m_fullscreen_target_screen = 0,
      m_fullscreen_target_mode = Windowed, m_fullscreen_mode = Windowed,
      m_last_fullscreen_mode = Windowed,
      m_last_windowed_xpos = 100, m_last_windowed_ypos = 100,
      m_last_windowed_width = 640, m_last_windowed_height = 480,
      m_window = Some example_window, m_minimized = False,
      m_last_video_mode = vmode_1080p\<rparr>"

definition no_debug_gui :: DebugGui where
  "no_debug_gui =
     \<lparr>should_advance_frame = True, should_gl_finish = False, get_screenshot_flag = False,
      screenshot_width = 1920, screenshot_height = 1080, screenshot_samples = 16\<rparr>"

definition advancing_env :: RenderEnv where
  "advancing_env =
     \<lparr>env_monitors = [primary_monitor], env_gui = no_debug_gui, env_max_samples = 8,
      env_window_should_close = False\<rparr>"

text \<open>An iteration in which the debug GUI holds the frame: no game frame is rendered.\<close>

definition paused_env :: RenderEnv where
  "paused_env =
     \<lparr>env_monitors = [primary_monitor],
      env_gui = \<lparr>should_advance_frame = False, should_gl_finish = False,
                  get_screenshot_flag = False, screenshot_width = 1920,
                  screenshot_height = 1080, screenshot_samples = 16\<rparr>,
      env_max_samples = 8, env_window_should_close = False\<rparr>"

text \<open>
  A second monitor to the right of the first, and a display windowed on it at (2000, 50),
  800 by 600.
\<close>

definition second_monitor :: GLFWmonitor where
  "second_monitor =
     \<lparr>monitor_xpos = 1920, monitor_ypos = 0, workarea_x = 1920, workarea_y = 0,
      workarea_width = 1280, workarea_height = 690, video_mode = vmode_720p\<rparr>"

definition second_display :: OpenGLDisplay where
  "second_display =
     \<lparr>m_fullscreen_screen = 1, m_fullscreen_target_screen = 1,
      m_fullscreen_target_mode = Windowed, m_fullscreen_mode = Windowed,
      m_last_fullscreen_mode = Windowed,
      m_last_windowed_xpos = 2000, m_last_windowed_ypos = 50,
      m_last_windowed_width = 800, m_last_windowed_height = 600,
      m_window = Some \<lparr>win_monitor = None, win_xpos = 2000, win_ypos = 50, win_width = 800,
                        win_height = 600, decorated = True, floating = False,
                        framebuffer_width = 800, framebuffer_height = 600\<rparr>,
      m_minimized = False, m_last_video_mode = vmode_720p\<rparr>"

text \<open>
  Two pads, no joystick attached to either; on the gamepad every button carries its own
  number, on the keyboard the keys from 65 on.
\<close>

definition example_gamepad_idx :: "int list" where
  "example_gamepad_idx = [- 1, - 1]"

definition example_mapping :: MappingInfo where
  "example_mapping =
     \<lparr>ControllerButtonMapping =
        [[0, 1, 2, 3, 4, 5, 6, 7, 8, 9, 10, 11, 12, 13, 14, 15],
         [0, 1, 2, 3, 4, 5, 6, 7, 8, 9, 10, 11, 12, 13, 14, 15]],
      KeyboardButtonMapping =
        [[65, 66, 67, 68, 69, 70, 71, 72, 73, 74, 75, 76, 77, 78, 79, 80],
         [65, 66, 67, 68, 69, 70, 71, 72, 73, 74, 75, 76, 77, 78, 79, 80]]\<rparr>"

section \<open>Target resolver: properties\<close>

lemmas resolver_defs =
  setup_frame_def needs_resolve_def resolve_targets_def Let_def clear_def matches_def
  update_window_fb_def still_applicable_def glDeleteFramebuffers_def make_fbo_def
  glGenFramebuffers_def glGenTextures_def glGenRenderbuffers_def

lemmas example_target_defs =
  fresh_fbo_state_def fresh_gl_def no_fbo_def always_complete_def options_for_def

subsection \<open>The pieces of setup_frame\<close>

lemma update_window_fb_fields:
  "valid (update_window_fb st f)"
  "is_window (update_window_fb st f)"
  "width (update_window_fb st f) = window_framebuffer_width st"
  "height (update_window_fb st f) = window_framebuffer_height st"
  "multisample_count (update_window_fb st f) = 1"
  by (simp_all add: update_window_fb_def)

lemma update_window_fb_twice:
  "update_window_fb st (update_window_fb st f) = update_window_fb st f"
  by (simp add: update_window_fb_def)

lemma matches_update_window_fb:
  "matches (update_window_fb st f) w h msaa \<longleftrightarrow>
     window_framebuffer_width st = w \<and> window_framebuffer_height st = h \<and> msaa = 1"
  by (auto simp: matches_def update_window_fb_fields)

lemma clear_fields:
  "\<not> valid (fst (clear f gl))"
  "fbos_generated (snd (clear f gl)) = fbos_generated gl"
  "textures_generated (snd (clear f gl)) = textures_generated gl"
  "renderbuffers_generated (snd (clear f gl)) = renderbuffers_generated gl"
  by (simp_all add: clear_def glDeleteFramebuffers_def)

lemma make_fbo_Inr:
  assumes "make_fbo c gl w h msaa z = Inr (f, gl')"
  shows "valid f \<and> width f = w \<and> height f = h \<and> multisample_count f = msaa \<and>
         multisampled f = (msaa > 1) \<and> \<not> is_window f \<and>
         (zbuf_stencil_id f \<noteq> None) = z \<and>
         fbo_id f = Suc (fbos_generated gl) \<and>
         fbos_generated gl' = Suc (fbos_generated gl)"
  using assms
  by (cases z)
     (auto simp: make_fbo_def glGenFramebuffers_def glGenTextures_def glGenRenderbuffers_def
           Let_def split: if_splits)

lemma resolve_targets_window:
  assumes "matches (window r) (game_res_w st) (game_res_h st) (msaa_samples st)"
  shows "resolve_targets c st r gl =
     Inr (\<lparr>render_fbo = WindowPtr,
           resources = r\<lparr>render_buffer := fst (clear (render_buffer r) gl),
                          resolve_buffer :=
                            fst (clear (resolve_buffer r) (snd (clear (render_buffer r) gl)))\<rparr>\<rparr>,
          snd (clear (resolve_buffer r) (snd (clear (render_buffer r) gl))))"
  using assms by (simp add: resolve_targets_def Let_def case_prod_beta)

lemma resolve_targets_offscreen:
  assumes "\<not> matches (window r) (game_res_w st) (game_res_h st) (msaa_samples st)"
    and "resolve_targets c st r gl = Inr (s', gl')"
  shows "render_fbo s' = RenderBufferPtr \<and> window (resources s') = window r \<and>
     (\<exists>gl2 gl3.
        fbos_generated gl2 = fbos_generated gl \<and>
        make_fbo c gl2 (game_res_w st) (game_res_h st) (msaa_samples st) True
          = Inr (render_buffer (resources s'), gl3) \<and>
        (if multisample_count (window r) \<noteq> msaa_samples st
         then make_fbo c gl3 (game_res_w st) (game_res_h st) 1 False
                = Inr (resolve_buffer (resources s'), gl')
         else \<not> valid (resolve_buffer (resources s')) \<and> gl' = gl3))"
proof -
  define gl2 where "gl2 = snd (clear (resolve_buffer r) (snd (clear (render_buffer r) gl)))"
  have g: "fbos_generated gl2 = fbos_generated gl"
    by (simp add: gl2_def clear_fields)
  from assms obtain rb gl3 where
    mk: "make_fbo c gl2 (game_res_w st) (game_res_h st) (msaa_samples st) True = Inr (rb, gl3)"
    by (cases "make_fbo c gl2 (game_res_w st) (game_res_h st) (msaa_samples st) True")
       (auto simp: resolve_targets_def Let_def case_prod_beta gl2_def)
  show ?thesis
  proof (cases "multisample_count (window r) = msaa_samples st")
    case True
    with assms mk have "s' = \<lparr>render_fbo = RenderBufferPtr,
        resources = r\<lparr>render_buffer := fst (clear (render_buffer r) gl),
          resolve_buffer := fst (clear (resolve_buffer r) (snd (clear (render_buffer r) gl))),
          render_buffer := rb\<rparr>\<rparr> \<and> gl' = gl3"
      by (simp add: resolve_targets_def Let_def case_prod_beta gl2_def)
    with True g mk show ?thesis
      by (auto simp: clear_fields)
  next
    case False
    with assms mk obtain rs where
      rs: "make_fbo c gl3 (game_res_w st) (game_res_h st) 1 False = Inr (rs, gl')"
      and s': "s' = \<lparr>render_fbo = RenderBufferPtr,
        resources = r\<lparr>render_buffer := fst (clear (render_buffer r) gl),
          resolve_buffer := fst (clear (resolve_buffer r) (snd (clear (render_buffer r) gl))),
          render_buffer := rb, resolve_buffer := rs\<rparr>\<rparr>"
      by (cases "make_fbo c gl3 (game_res_w st) (game_res_h st) 1 False")
         (auto simp: resolve_targets_def Let_def case_prod_beta gl2_def)
    with False g mk show ?thesis
      by auto
  qed
qed

lemma setup_frame_cases:
  assumes "setup_frame c st (s, gl) = Inr (s', gl')"
  shows "game_res_w st > 0 \<and> game_res_h st > 0 \<and>
     (if needs_resolve s st
      then resolve_targets c st
             ((resources s)\<lparr>window := update_window_fb st (window (resources s))\<rparr>) gl
             = Inr (s', gl')
      else s' = s\<lparr>resources :=
                    (resources s)\<lparr>window := update_window_fb st (window (resources s))\<rparr>\<rparr> \<and>
           gl' = gl)"
  using assms
  by (auto simp: setup_frame_def Let_def split: if_splits sum.splits)

lemma setup_frame_skip:
  assumes "\<not> needs_resolve s st" and "game_res_w st > 0" and "game_res_h st > 0"
  shows "setup_frame c st (s, gl) =
     Inr (s\<lparr>resources :=
              (resources s)\<lparr>window := update_window_fb st (window (resources s))\<rparr>\<rparr>, gl)"
  using assms by (simp add: setup_frame_def Let_def)

lemma setup_frame_resolve:
  assumes "needs_resolve s st" and "game_res_w st > 0" and "game_res_h st > 0"
  shows "setup_frame c st (s, gl) =
     resolve_targets c st
       ((resources s)\<lparr>window := update_window_fb st (window (resources s))\<rparr>) gl"
  using assms
  by (cases "resolve_targets c st
       ((resources s)\<lparr>window := update_window_fb st (window (resources s))\<rparr>) gl")
     (simp_all add: setup_frame_def Let_def)

lemma needs_resolve_iff:
  "needs_resolve s st \<longleftrightarrow>
     render_fbo s = Null \<or>
     width (window (resources s)) \<noteq> window_framebuffer_width st \<or>
     height (window (resources s)) \<noteq> window_framebuffer_height st \<or>
     \<not> still_applicable
         ((resources s)\<lparr>window := update_window_fb st (window (resources s))\<rparr>)
         (render_fbo s) st"
  by (auto simp: needs_resolve_def Let_def)

lemma still_applicable_window:
  "still_applicable r WindowPtr st \<longleftrightarrow>
     matches (window r) (game_res_w st) (game_res_h st) (msaa_samples st)"
  by (simp add: still_applicable_def)

lemma still_applicable_render_buffer:
  "still_applicable r RenderBufferPtr st \<longleftrightarrow>
     matches (render_buffer r) (game_res_w st) (game_res_h st) (msaa_samples st)"
  by (simp add: still_applicable_def)

lemma setup_frame_consistent:
  assumes inv: "targets_consistent s" and ok: "setup_frame c st (s, gl) = Inr (s', gl')"
  shows "targets_consistent s'"
proof (cases "needs_resolve s st")
  case True
  let ?r = "(resources s)\<lparr>window := update_window_fb st (window (resources s))\<rparr>"
  from setup_frame_cases [OF ok] True
  have res: "resolve_targets c st ?r gl = Inr (s', gl')"
    by simp
  show ?thesis
  proof (cases "matches (window ?r) (game_res_w st) (game_res_h st) (msaa_samples st)")
    case True
    from resolve_targets_window [OF True, of c gl] res
    show ?thesis
      by (auto simp: targets_consistent_def clear_fields)
  next
    case False
    from resolve_targets_offscreen [OF False res] obtain gl2 gl3 where
      p: "render_fbo s' = RenderBufferPtr"
      and w: "window (resources s') = window ?r"
      and mk: "make_fbo c gl2 (game_res_w st) (game_res_h st) (msaa_samples st) True
                 = Inr (render_buffer (resources s'), gl3)"
      by blast
    from False have "\<not> (window_framebuffer_width st = game_res_w st \<and>
        window_framebuffer_height st = game_res_h st \<and> msaa_samples st = 1)"
      by (simp add: matches_update_window_fb)
    with p w make_fbo_Inr [OF mk] show ?thesis
      by (auto simp: targets_consistent_def update_window_fb_fields)
  qed
next
  case False
  with setup_frame_cases [OF ok]
  have s': "s' = s\<lparr>resources :=
              (resources s)\<lparr>window := update_window_fb st (window (resources s))\<rparr>\<rparr>"
    by simp
  from False have same: "width (window (resources s)) = window_framebuffer_width st"
    "height (window (resources s)) = window_framebuffer_height st"
    by (simp_all add: needs_resolve_iff)
  from inv show ?thesis
    by (cases "render_fbo s")
       (simp_all add: targets_consistent_def s' same update_window_fb_fields)
qed

lemma setup_frames_consistent:
  "targets_consistent (fst sg) \<Longrightarrow> setup_frames c history sg = Inr sg'
     \<Longrightarrow> targets_consistent (fst sg')"
proof (induction history arbitrary: sg)
  case Nil
  then show ?case by simp
next
  case (Cons opts history)
  then show ?case
    by (cases sg; cases "setup_frame c opts sg")
       (auto dest: setup_frame_consistent split: sum.splits)
qed

lemma direct_path_consistent:
  assumes w: "game_res_w st = window_framebuffer_width st"
    and h: "game_res_h st = window_framebuffer_height st"
    and m: "msaa_samples st = 1"
    and pos: "game_res_w st > 0" "game_res_h st > 0"
    and inv: "targets_consistent s"
  shows "\<exists>s' gl'. setup_frame c st (s, gl) = Inr (s', gl') \<and> render_fbo s' = WindowPtr \<and>
     is_window (window (resources s')) \<and>
     fbos_generated gl' = fbos_generated gl \<and>
     textures_generated gl' = textures_generated gl \<and>
     renderbuffers_generated gl' = renderbuffers_generated gl \<and>
     \<not> valid (render_buffer (resources s')) \<and> \<not> valid (resolve_buffer (resources s'))"
proof (cases "needs_resolve s st")
  case True
  let ?r = "(resources s)\<lparr>window := update_window_fb st (window (resources s))\<rparr>"
  have "matches (window ?r) (game_res_w st) (game_res_h st) (msaa_samples st)"
    using w h m by (simp add: matches_update_window_fb)
  from resolve_targets_window [OF this, of c gl] setup_frame_resolve [OF True pos, of c gl]
  show ?thesis
    by (simp add: clear_fields update_window_fb_fields)
next
  case False
  then have same: "width (window (resources s)) = window_framebuffer_width st"
    "height (window (resources s)) = window_framebuffer_height st"
    and app: "still_applicable
         ((resources s)\<lparr>window := update_window_fb st (window (resources s))\<rparr>)
         (render_fbo s) st"
    and nn: "render_fbo s \<noteq> Null"
    by (simp_all add: needs_resolve_iff)
  have "render_fbo s = WindowPtr"
  proof (cases "render_fbo s")
    case Null
    with nn show ?thesis by simp
  next
    case WindowPtr
    then show ?thesis .
  next
    case RenderBufferPtr
    with app have "matches (render_buffer (resources s)) (game_res_w st) (game_res_h st)
        (msaa_samples st)"
      by (simp add: still_applicable_render_buffer)
    with inv RenderBufferPtr same w h m show ?thesis
      by (simp add: targets_consistent_def matches_def)
  qed
  with inv setup_frame_skip [OF False pos, of c gl] show ?thesis
    by (simp add: targets_consistent_def update_window_fb_fields)
qed

lemma setup_frame_settles:
  assumes ok: "setup_frame c st (s, gl) = Inr (s', gl')"
  shows "\<not> needs_resolve s' st"
proof -
  let ?r = "(resources s)\<lparr>window := update_window_fb st (window (resources s))\<rparr>"
  have "render_fbo s' \<noteq> Null \<and> window (resources s') = update_window_fb st (window (resources s))
      \<and> still_applicable (resources s') (render_fbo s') st"
  proof (cases "needs_resolve s st")
    case True
    from setup_frame_cases [OF ok] True
    have res: "resolve_targets c st ?r gl = Inr (s', gl')"
      by simp
    show ?thesis
    proof (cases "matches (window ?r) (game_res_w st) (game_res_h st) (msaa_samples st)")
      case True
      from resolve_targets_window [OF True, of c gl] res True
      show ?thesis
        by (auto simp: still_applicable_window)
    next
      case False
      from resolve_targets_offscreen [OF False res] obtain gl2 gl3 where
        p: "render_fbo s' = RenderBufferPtr"
        and w: "window (resources s') = window ?r"
        and mk: "make_fbo c gl2 (game_res_w st) (game_res_h st) (msaa_samples st) True
                   = Inr (render_buffer (resources s'), gl3)"
        by blast
      from p w make_fbo_Inr [OF mk] show ?thesis
        by (simp add: still_applicable_render_buffer matches_def)
    qed
  next
    case False
    with setup_frame_cases [OF ok]
    have s': "s' = s\<lparr>resources := ?r\<rparr>"
      by simp
    from False show ?thesis
      by (simp add: needs_resolve_iff s')
  qed
  then have nn: "render_fbo s' \<noteq> Null"
    and win: "window (resources s') = update_window_fb st (window (resources s))"
    and app: "still_applicable (resources s') (render_fbo s') st"
    by simp_all
  from win have fixed: "update_window_fb st (window (resources s')) = window (resources s')"
    by (simp add: update_window_fb_twice)
  have e: "(resources s')\<lparr>window := update_window_fb st (window (resources s'))\<rparr>
             = resources s'"
    by (simp add: fixed)
  have "width (window (resources s')) = window_framebuffer_width st"
    and "height (window (resources s')) = window_framebuffer_height st"
    by (simp_all add: win update_window_fb_fields)
  with nn app show ?thesis
    unfolding needs_resolve_iff e by simp
qed

lemma setup_frame_again:
  assumes ok: "setup_frame c st (s, gl) = Inr (s', gl')"
  shows "setup_frame c st (s', gl') = Inr (s', gl')"
proof -
  let ?r = "(resources s)\<lparr>window := update_window_fb st (window (resources s))\<rparr>"
  from setup_frame_cases [OF ok] have pos: "game_res_w st > 0" "game_res_h st > 0"
    by simp_all
  have win: "window (resources s') = update_window_fb st (window (resources s))"
  proof (cases "needs_resolve s st")
    case True
    from setup_frame_cases [OF ok] True
    have res: "resolve_targets c st ?r gl = Inr (s', gl')"
      by simp
    show ?thesis
    proof (cases "matches (window ?r) (game_res_w st) (game_res_h st) (msaa_samples st)")
      case True
      from resolve_targets_window [OF True, of c gl] res show ?thesis
        by auto
    next
      case False
      from resolve_targets_offscreen [OF False res] show ?thesis
        by simp
    qed
  next
    case False
    with setup_frame_cases [OF ok] show ?thesis
      by simp
  qed
  from win have fixed: "update_window_fb st (window (resources s')) = window (resources s')"
    by (simp add: update_window_fb_twice)
  have "s'\<lparr>resources := (resources s')\<lparr>window := update_window_fb st (window (resources s'))\<rparr>\<rparr> = s'"
    by (simp add: fixed)
  with setup_frame_skip [OF setup_frame_settles [OF ok] pos, of c gl'] show ?thesis
    by simp
qed

lemma needs_resolve_reads:
  assumes "game_res_w st' = game_res_w st"
    and "game_res_h st' = game_res_h st"
    and "msaa_samples st' = msaa_samples st"
    and "window_framebuffer_width st' = window_framebuffer_width st"
    and "window_framebuffer_height st' = window_framebuffer_height st"
  shows "update_window_fb st' f = update_window_fb st f"
    and "needs_resolve s st' = needs_resolve s st"
    and "resolve_targets c st' r gl = resolve_targets c st r gl"
  unfolding update_window_fb_def needs_resolve_def still_applicable_def resolve_targets_def
    assms
  by (rule refl)+

lemma setup_frame_reads:
  assumes "game_res_w st' = game_res_w st"
    and "game_res_h st' = game_res_h st"
    and "msaa_samples st' = msaa_samples st"
    and "window_framebuffer_width st' = window_framebuffer_width st"
    and "window_framebuffer_height st' = window_framebuffer_height st"
  shows "setup_frame c st' sg = setup_frame c st sg"
  unfolding setup_frame_def needs_resolve_reads [OF assms] assms
  by (rule refl)

text \<open>
  C3. Take the resolver from a state with no target selected through any sequence of
  successful \<^verbatim>\<open>setup_frame\<close> calls. A call whose desired (game_res_w, game_res_h,
  msaa_samples) is the window framebuffer's (width, height, 1), with a positive size as
  the spec requires of the caller, then succeeds, selects the window's entry as
  \<^verbatim>\<open>render_fbo\<close>, generates no framebuffer, texture or renderbuffer name, and leaves
  neither a render buffer nor a resolve buffer.
\<close>

theorem direct_path_selection:
  assumes "render_fbo s0 = Null"
    and "setup_frames c history (s0, gl0) = Inr (s, gl)"
    and "game_res_w opts = window_framebuffer_width opts"
    and "game_res_h opts = window_framebuffer_height opts"
    and "msaa_samples opts = 1"
    and "game_res_w opts > 0" and "game_res_h opts > 0"
  shows "\<exists>s' gl'. setup_frame c opts (s, gl) = Inr (s', gl') \<and> render_fbo s' = WindowPtr \<and>
     is_window (window (resources s')) \<and>
     fbos_generated gl' = fbos_generated gl \<and>
     textures_generated gl' = textures_generated gl \<and>
     renderbuffers_generated gl' = renderbuffers_generated gl \<and>
     \<not> valid (render_buffer (resources s')) \<and> \<not> valid (resolve_buffer (resources s'))"
proof -
  have "targets_consistent s0"
    using assms(1) by (simp add: targets_consistent_def)
  with assms(2) have "targets_consistent s"
    using setup_frames_consistent [of "(s0, gl0)" c history "(s, gl)"] by simp
  with assms(3-7) show ?thesis
    by (rule direct_path_consistent)
qed

text \<open>
  The resolver first renders 640 by 480 with four samples into an 800 by 600 window, which
  takes a render buffer and a resolve buffer; the game then asks for 800 by 600 with one
  sample, and the window is taken.
\<close>

theorem direct_path_selection_witness:
  "render_fbo fresh_fbo_state = Null \<and>
   (\<exists>s gl s' gl'.
      setup_frames always_complete [options_for 800 600 640 480 4] (fresh_fbo_state, fresh_gl)
        = Inr (s, gl) \<and>
      render_fbo s = RenderBufferPtr \<and>
      setup_frame always_complete (options_for 800 600 800 600 1) (s, gl) = Inr (s', gl') \<and>
      render_fbo s' = WindowPtr \<and> fbos_generated gl' = fbos_generated gl \<and>
      \<not> valid (render_buffer (resources s')) \<and> \<not> valid (resolve_buffer (resources s')))"
proof -
  have n: "render_fbo fresh_fbo_state = Null"
    by (simp add: fresh_fbo_state_def)
  have "\<exists>s gl. setup_frames always_complete [options_for 800 600 640 480 4]
                  (fresh_fbo_state, fresh_gl) = Inr (s, gl) \<and> render_fbo s = RenderBufferPtr"
    by (simp add: resolver_defs example_target_defs)
  then obtain s gl where
    h: "setup_frames always_complete [options_for 800 600 640 480 4]
          (fresh_fbo_state, fresh_gl) = Inr (s, gl)"
    and r: "render_fbo s = RenderBufferPtr"
    by blast
  have "\<exists>s' gl'. setup_frame always_complete (options_for 800 600 800 600 1) (s, gl)
                    = Inr (s', gl') \<and> render_fbo s' = WindowPtr \<and>
          is_window (window (resources s')) \<and>
          fbos_generated gl' = fbos_generated gl \<and>
          textures_generated gl' = textures_generated gl \<and>
          renderbuffers_generated gl' = renderbuffers_generated gl \<and>
          \<not> valid (render_buffer (resources s')) \<and> \<not> valid (resolve_buffer (resources s'))"
    by (rule direct_path_selection [OF n h]) (simp_all add: options_for_def)
  with n h r show ?thesis by blast
qed

text \<open>
  C4. After a call of \<^verbatim>\<open>setup_frame\<close> that resolves anew and cannot take the window,
  the render buffer is the target: it is valid, of the desired width, height and sample
  count, multisampled exactly when that count exceeds 1, and has a depth and stencil
  buffer. The window's sample count is 1. If the desired count differs from it, a valid
  resolve buffer of the desired size exists beside the render buffer, single-sampled and
  without depth and stencil, under a framebuffer name of its own, and the call has
  generated two framebuffers; if the counts are equal there is no resolve buffer and the
  call has generated one framebuffer.
\<close>

theorem resolve_buffer_necessity:
  assumes ok: "setup_frame c opts (s, gl) = Inr (s', gl')"
    and again: "needs_resolve s opts"
    and off: "\<not> matches (update_window_fb opts (window (resources s)))
             (game_res_w opts) (game_res_h opts) (msaa_samples opts)"
  shows "render_fbo s' = RenderBufferPtr \<and>
     multisample_count (window (resources s')) = 1 \<and>
     valid (render_buffer (resources s')) \<and>
     width (render_buffer (resources s')) = game_res_w opts \<and>
     height (render_buffer (resources s')) = game_res_h opts \<and>
     multisample_count (render_buffer (resources s')) = msaa_samples opts \<and>
     multisampled (render_buffer (resources s')) = (msaa_samples opts > 1) \<and>
     zbuf_stencil_id (render_buffer (resources s')) \<noteq> None \<and>
     (if msaa_samples opts \<noteq> multisample_count (window (resources s'))
      then valid (resolve_buffer (resources s')) \<and>
           width (resolve_buffer (resources s')) = game_res_w opts \<and>
           height (resolve_buffer (resources s')) = game_res_h opts \<and>
           multisample_count (resolve_buffer (resources s')) = 1 \<and>
           \<not> multisampled (resolve_buffer (resources s')) \<and>
           zbuf_stencil_id (resolve_buffer (resources s')) = None \<and>
           fbo_id (resolve_buffer (resources s')) \<noteq> fbo_id (render_buffer (resources s')) \<and>
           fbos_generated gl' = fbos_generated gl + 2
      else \<not> valid (resolve_buffer (resources s')) \<and>
           fbos_generated gl' = fbos_generated gl + 1)"
proof -
  let ?r = "(resources s)\<lparr>window := update_window_fb opts (window (resources s))\<rparr>"
  from setup_frame_cases [OF ok] again
  have res: "resolve_targets c opts ?r gl = Inr (s', gl')"
    by simp
  from off have off': "\<not> matches (window ?r) (game_res_w opts) (game_res_h opts)
      (msaa_samples opts)"
    by simp
  from resolve_targets_offscreen [OF off' res] obtain gl2 gl3 where
    p: "render_fbo s' = RenderBufferPtr"
    and w: "window (resources s') = update_window_fb opts (window (resources s))"
    and g2: "fbos_generated gl2 = fbos_generated gl"
    and mk: "make_fbo c gl2 (game_res_w opts) (game_res_h opts) (msaa_samples opts) True
               = Inr (render_buffer (resources s'), gl3)"
    and rest: "if multisample_count (window ?r) \<noteq> msaa_samples opts
         then make_fbo c gl3 (game_res_w opts) (game_res_h opts) 1 False
                = Inr (resolve_buffer (resources s'), gl')
         else \<not> valid (resolve_buffer (resources s')) \<and> gl' = gl3"
    by auto
  note rb = make_fbo_Inr [OF mk]
  show ?thesis
  proof (cases "msaa_samples opts = 1")
    case True
    with rest have "\<not> valid (resolve_buffer (resources s')) \<and> gl' = gl3"
      by (simp add: update_window_fb_fields)
    with True p w g2 rb show ?thesis
      by (simp add: update_window_fb_fields)
  next
    case False
    with rest have mk2: "make_fbo c gl3 (game_res_w opts) (game_res_h opts) 1 False
                = Inr (resolve_buffer (resources s'), gl')"
      by (simp add: update_window_fb_fields)
    note rs = make_fbo_Inr [OF mk2]
    from False p w g2 rb rs show ?thesis
      by (simp add: update_window_fb_fields)
  qed
qed

text \<open>
  640 by 480 with four samples into an 800 by 600 window, from the fresh state: a
  multisampled render buffer and a resolve buffer, two framebuffers in all.
\<close>

theorem resolve_buffer_necessity_witness:
  "\<exists>s' gl'.
     setup_frame always_complete (options_for 800 600 640 480 4) (fresh_fbo_state, fresh_gl)
       = Inr (s', gl') \<and>
     needs_resolve fresh_fbo_state (options_for 800 600 640 480 4) \<and>
     render_fbo s' = RenderBufferPtr \<and>
     multisampled (render_buffer (resources s')) \<and>
     multisample_count (render_buffer (resources s')) = 4 \<and>
     valid (resolve_buffer (resources s')) \<and>
     multisample_count (resolve_buffer (resources s')) = 1 \<and>
     fbos_generated gl' = 2"
proof -
  have "\<exists>s' gl'. setup_frame always_complete (options_for 800 600 640 480 4)
                    (fresh_fbo_state, fresh_gl) = Inr (s', gl')"
    by (simp add: resolver_defs example_target_defs)
  then obtain s' gl' where
    h: "setup_frame always_complete (options_for 800 600 640 480 4)
          (fresh_fbo_state, fresh_gl) = Inr (s', gl')"
    by blast
  have n: "needs_resolve fresh_fbo_state (options_for 800 600 640 480 4)"
    by (simp add: needs_resolve_def fresh_fbo_state_def Let_def)
  have m: "\<not> matches (update_window_fb (options_for 800 600 640 480 4)
                        (window (resources fresh_fbo_state)))
              (game_res_w (options_for 800 600 640 480 4))
              (game_res_h (options_for 800 600 640 480 4))
              (msaa_samples (options_for 800 600 640 480 4))"
    by (simp add: matches_def update_window_fb_def options_for_def)
  from resolve_buffer_necessity [OF h n m] h n show ?thesis
    by (simp add: options_for_def fresh_gl_def)
qed

text \<open>
  C5. When a call of \<^verbatim>\<open>setup_frame\<close> has succeeded, a second call with the same
  desired resolution, sample count and window framebuffer size returns the state the
  first one left, as it is: the object names are the same, so nothing was generated or
  deleted, and \<^verbatim>\<open>render_fbo\<close> is the same pointer.
\<close>

theorem target_reuse_idempotence:
  assumes "setup_frame c opts (s, gl) = Inr (s1, gl1)"
    and "game_res_w opts' = game_res_w opts"
    and "game_res_h opts' = game_res_h opts"
    and "msaa_samples opts' = msaa_samples opts"
    and "window_framebuffer_width opts' = window_framebuffer_width opts"
    and "window_framebuffer_height opts' = window_framebuffer_height opts"
  shows "setup_frame c opts' (s1, gl1) = Inr (s1, gl1)"
  using setup_frame_again [OF assms(1)] setup_frame_reads [OF assms(2-6), of c "(s1, gl1)"]
  by simp

text \<open>
  The same options twice from the fresh state: the second call finds the two framebuffers
  of the first and returns its state.
\<close>

theorem target_reuse_idempotence_witness:
  "\<exists>s1 gl1.
     setup_frame always_complete (options_for 800 600 640 480 4) (fresh_fbo_state, fresh_gl)
       = Inr (s1, gl1) \<and>
     fbos_generated gl1 = 2 \<and>
     setup_frame always_complete (options_for 800 600 640 480 4) (s1, gl1) = Inr (s1, gl1)"
proof -
  have "\<exists>s1 gl1. setup_frame always_complete (options_for 800 600 640 480 4)
                    (fresh_fbo_state, fresh_gl) = Inr (s1, gl1) \<and> fbos_generated gl1 = 2"
    by (simp add: resolver_defs example_target_defs)
  then obtain s1 gl1 where
    h: "setup_frame always_complete (options_for 800 600 640 480 4)
          (fresh_fbo_state, fresh_gl) = Inr (s1, gl1)"
    and g: "fbos_generated gl1 = 2"
    by blast
  from target_reuse_idempotence [OF h, of "options_for 800 600 640 480 4"] h g
  show ?thesis by simp
qed

section \<open>Frame channel and frame pacer: properties\<close>

lemmas example_runtime_defs =
  idle_runtime_def pending_runtime_def exiting_runtime_def idle_graphics_data_def
  pending_graphics_data_def default_settings_def

lemmas example_display_defs =
  windowed_display_def example_window_def primary_monitor_def vmode_1080p_def vmode_720p_def
  second_monitor_def second_display_def

lemmas example_env_defs =
  advancing_env_def paused_env_def no_debug_gui_def

lemmas display_defs =
  render_update_fullscreen_def set_fullscreen_def update_last_fullscreen_mode_def
  fullscreen_pending_def GraphicsDisplay_fullscreen_pending_def get_monitor_def
  minimized_def fullscreen_flush_def GraphicsDisplay_fullscreen_flush_def
  update_fullscreen_def glfwSetWindowMonitor_def

text \<open>
  C1. A \<^verbatim>\<open>gl_send_chain\<close> made while \<^verbatim>\<open>has_data_to_render\<close> is set appends one
  message to the error log and changes nothing else: the runtime is the one before, with a
  longer log, and the graphics data (buffer, offset, frame index, pending flag) are the
  same.
\<close>

theorem send_chain_rejected_while_pending:
  assumes "g_graphics_data rt = Some g" and "has_data_to_render g"
  shows "(\<exists>msg. gl_send_chain data offset rt = rt\<lparr>lg_error := lg_error rt @ [msg]\<rparr>) \<and>
         g_graphics_data (gl_send_chain data offset rt) = Some g"
  using assms by (auto simp: gl_send_chain_def)

text \<open>
  A second chain, at address 8192 with offset 7, sent while the chain at 4096 is pending:
  the pending chain stays, and the log has its first entry.
\<close>

theorem send_chain_rejected_while_pending_witness:
  "g_graphics_data pending_runtime = Some pending_graphics_data \<and>
   has_data_to_render pending_graphics_data \<and>
   g_graphics_data (gl_send_chain 8192 7 pending_runtime) = Some pending_graphics_data \<and>
   length (lg_error (gl_send_chain 8192 7 pending_runtime)) = 1"
proof -
  have a: "g_graphics_data pending_runtime = Some pending_graphics_data"
    by (simp add: pending_runtime_def)
  have b: "has_data_to_render pending_graphics_data"
    by (simp add: pending_graphics_data_def)
  from send_chain_rejected_while_pending [OF a b, of 8192 7] obtain msg where
    m: "gl_send_chain 8192 7 pending_runtime
          = pending_runtime\<lparr>lg_error := lg_error pending_runtime @ [msg]\<rparr>"
    and k: "g_graphics_data (gl_send_chain 8192 7 pending_runtime)
              = Some pending_graphics_data"
    by blast
  have "length (lg_error (gl_send_chain 8192 7 pending_runtime)) = 1"
    by (subst m) (simp add: pending_runtime_def)
  with a b k show ?thesis
    by blast
qed

lemma render_game_frame_consumes:
  assumes "render_game_frame c gui mx gw gh ww wh dw dh ms rt = Inr rt1"
  shows "\<exists>g g1. g_graphics_data rt = Some g \<and> g_graphics_data rt1 = Some g1 \<and>
           \<not> has_data_to_render g1 \<and> frame_idx g1 = frame_idx g"
  using assms
  by (auto simp: render_game_frame_def Let_def
           split: option.splits sum.splits if_splits prod.splits)

lemma render_frame_idx:
  assumes "render win32 c env (rt, d) = Inr (rt', d')"
  shows "\<exists>g g'. g_graphics_data rt = Some g \<and> g_graphics_data rt' = Some g' \<and>
           frame_idx g' = frame_idx g + 1"
  using assms
  by (auto simp: render_def Let_def if_distrib [where f = g_graphics_data]
           split: option.splits sum.splits if_splits
           dest!: render_game_frame_consumes)

lemma gl_send_chain_frame_idx:
  "map_option frame_idx (g_graphics_data (gl_send_chain data offset rt))
     = map_option frame_idx (g_graphics_data rt)"
  by (simp add: gl_send_chain_def split: option.splits)

lemma run_frame_idx:
  "run win32 c evs rd = Inr rd' \<Longrightarrow> g_graphics_data (fst rd) = Some g \<Longrightarrow>
   \<exists>g'. g_graphics_data (fst rd') = Some g' \<and>
     frame_idx g' = frame_idx g + of_nat (length (filter is_render evs))"
proof (induction evs arbitrary: rd g)
  case Nil
  then show ?case by simp
next
  case (Cons ev evs)
  show ?case
  proof (cases ev)
    case (SendChain data offset)
    from gl_send_chain_frame_idx [of data offset "fst rd"] Cons.prems(2)
    obtain g1 where g1: "g_graphics_data (gl_send_chain data offset (fst rd)) = Some g1"
      "frame_idx g1 = frame_idx g"
      by (cases "g_graphics_data (gl_send_chain data offset (fst rd))") auto
    from Cons.prems(1) SendChain
    have "run win32 c evs (gl_send_chain data offset (fst rd), snd rd) = Inr rd'"
      by simp
    from Cons.IH [OF this, of g1] g1 show ?thesis
      using SendChain by simp
  next
    case (RenderIteration env)
    with Cons.prems(1) obtain rd1 where
      r: "render win32 c env rd = Inr rd1" and rest: "run win32 c evs rd1 = Inr rd'"
      by (auto split: sum.splits)
    from render_frame_idx [of win32 c env "fst rd" "snd rd" "fst rd1" "snd rd1"] r
      Cons.prems(2)
    obtain g1 where g1: "g_graphics_data (fst rd1) = Some g1"
      "frame_idx g1 = frame_idx g + 1"
      by auto
    from Cons.IH [OF rest g1(1)] g1(2) show ?thesis
      using RenderIteration by (auto simp: algebra_simps)
  qed
qed

lemma a_published_frame_is_consumed:
  "frame_index_of (render_game_frame always_complete no_debug_gui 8 640 480 640 480 640 480 4
                     pending_runtime) = Some 5"
  by (simp add: frame_index_of_def frame_index_def render_game_frame_def make_options_def
        OpenGLRenderer_render_def resolver_defs example_target_defs example_runtime_defs
        no_debug_gui_def)

lemma one_publish_two_iterations:
  "frame_index_after
     (run False always_complete
        [SendChain 4096 100, RenderIteration advancing_env, RenderIteration paused_env]
        (idle_runtime, windowed_display)) = Some 2"
  by (simp add: frame_index_after_def frame_index_def render_def gl_send_chain_def
        set_input_data_def run_dma_copy_def render_game_frame_def make_options_def
        OpenGLRenderer_render_def resolver_defs example_target_defs example_runtime_defs
        example_display_defs example_env_defs display_defs)

text \<open>
  C2, the claim as stated fails. The consume step at the end of \<^verbatim>\<open>render_game_frame\<close>
  leaves the frame counter where it was: from the pending runtime, whose counter is 5, the
  counter is 5 afterwards. And a run with one publish and one consume raises the counter
  twice when the loop goes through two iterations: the chain is published, one iteration
  renders and consumes it, and in the next one the debug GUI holds the frame.
\<close>

theorem consume_advances_frame_index_counterexample:
  "frame_index pending_runtime = Some 5 \<and>
   frame_index_of (render_game_frame always_complete no_debug_gui 8 640 480 640 480 640 480 4
                     pending_runtime) = Some 5 \<and>
   frame_index idle_runtime = Some 0 \<and>
   frame_index_after
     (run False always_complete
        [SendChain 4096 100, RenderIteration advancing_env, RenderIteration paused_env]
        (idle_runtime, windowed_display)) = Some 2"
  using a_published_frame_is_consumed one_publish_two_iterations
  by (simp add: frame_index_def pending_runtime_def pending_graphics_data_def
        idle_runtime_def idle_graphics_data_def)

text \<open>
  C2, amended. The consume step at the end of \<^verbatim>\<open>render_game_frame\<close> clears
  \<^verbatim>\<open>has_data_to_render\<close> and leaves \<^verbatim>\<open>frame_idx\<close> as it was. The counter is
  advanced by \<^verbatim>\<open>OpenGLDisplay::render\<close>, by one (modulo \<open>2 ^ 64\<close>) in every
  iteration, whether or not a chain was published or consumed in it: over a run that does
  not fail, \<^verbatim>\<open>frame_idx\<close> grows by the number of iterations of the loop.
\<close>

theorem frame_index_counts_render_iterations:
  "(render_game_frame c gui mx gw gh ww wh dw dh ms rt = Inr rt1 \<longrightarrow>
      pending_data rt1 = Some False \<and> frame_index rt1 = frame_index rt) \<and>
   (run win32 c evs (rt, d) = Inr (rt', d') \<longrightarrow> g_graphics_data rt = Some g \<longrightarrow>
      frame_index rt' = Some (frame_idx g + of_nat (length (filter is_render evs))))"
proof (rule conjI; intro impI)
  assume "render_game_frame c gui mx gw gh ww wh dw dh ms rt = Inr rt1"
  from render_game_frame_consumes [OF this]
  show "pending_data rt1 = Some False \<and> frame_index rt1 = frame_index rt"
    by (auto simp: pending_data_def frame_index_def)
next
  assume "run win32 c evs (rt, d) = Inr (rt', d')" and "g_graphics_data rt = Some g"
  with run_frame_idx [of win32 c evs "(rt, d)" "(rt', d')" g]
  show "frame_index rt' = Some (frame_idx g + of_nat (length (filter is_render evs)))"
    by (auto simp: frame_index_def)
qed

lemma run_example:
  "\<exists>rt' d'. run False always_complete
        [RenderIteration paused_env, SendChain 4096 100, RenderIteration advancing_env]
        (pending_runtime, windowed_display) = Inr (rt', d')"
  by (simp add: render_def gl_send_chain_def set_input_data_def
       run_dma_copy_def render_game_frame_def make_options_def
       OpenGLRenderer_render_def resolver_defs example_target_defs example_runtime_defs
       example_display_defs example_env_defs display_defs)

lemma consume_example:
  "\<exists>rt1. render_game_frame always_complete no_debug_gui 8 640 480 640 480 640 480 4
            pending_runtime = Inr rt1"
  by (simp add: render_game_frame_def make_options_def
       OpenGLRenderer_render_def resolver_defs example_target_defs example_runtime_defs
       example_env_defs)

text \<open>
  From the pending runtime: the consume step clears the flag and keeps the counter at 5;
  an iteration that holds the frame, a publish (rejected, a chain is pending) and an
  iteration that renders take the counter from 5 to 7.
\<close>

theorem frame_index_counts_render_iterations_witness:
  "\<exists>rt1 rt' d'.
     render_game_frame always_complete no_debug_gui 8 640 480 640 480 640 480 4
       pending_runtime = Inr rt1 \<and>
     pending_data rt1 = Some False \<and> frame_index rt1 = Some 5 \<and>
     run False always_complete
       [RenderIteration paused_env, SendChain 4096 100, RenderIteration advancing_env]
       (pending_runtime, windowed_display) = Inr (rt', d') \<and>
     g_graphics_data pending_runtime = Some pending_graphics_data \<and>
     frame_index rt' = Some 7"
proof -
  from consume_example obtain rt1 where
    c: "render_game_frame always_complete no_debug_gui 8 640 480 640 480 640 480 4
          pending_runtime = Inr rt1"
    by blast
  from run_example obtain rt' d' where
    r: "run False always_complete
          [RenderIteration paused_env, SendChain 4096 100, RenderIteration advancing_env]
          (pending_runtime, windowed_display) = Inr (rt', d')"
    by blast
  have g: "g_graphics_data pending_runtime = Some pending_graphics_data"
    by (simp add: pending_runtime_def)
  have f: "frame_index pending_runtime = Some 5"
    by (simp add: frame_index_def pending_runtime_def pending_graphics_data_def)
  have i: "frame_idx pending_graphics_data = 5"
    by (simp add: pending_graphics_data_def)
  note t = frame_index_counts_render_iterations
    [of always_complete no_debug_gui 8 640 480 640 480 640 480 4 pending_runtime rt1
        False "[RenderIteration paused_env, SendChain 4096 100, RenderIteration advancing_env]"
        windowed_display rt' d' pending_graphics_data]
  from t c f have "pending_data rt1 = Some False \<and> frame_index rt1 = Some 5"
    by simp
  moreover from t r g i have "frame_index rt' = Some 7"
    by simp
  ultimately show ?thesis
    using c r g by blast
qed

text \<open>
  C6, at the failing state: the window was closed, so the exit status is \<open>EXIT\<close>, and
  a chain is pending. The predicate \<^verbatim>\<open>gl_sync_path\<close> waits on is false there and the
  producer stays blocked, while \<^verbatim>\<open>gl_vsync\<close> returns in the same state.
\<close>

theorem sync_path_ignores_exit_status:
  "MasterExit exiting_runtime = EXIT \<and>
   pending_data exiting_runtime = Some True \<and>
   gl_sync_path_pred (MasterExit exiting_runtime) pending_graphics_data = False \<and>
   gl_sync_path exiting_runtime = None \<and>
   gl_vsync exiting_runtime = Some 1"
  by (simp add: exiting_runtime_def pending_graphics_data_def gl_sync_path_def gl_vsync_def
        cv_wait_def gl_sync_path_pred_def gl_vsync_pred_def pending_data_def)

lemma gl_vsync_returns_on_exit:
  "MasterExit rt \<noteq> RUNNING \<Longrightarrow> \<exists>parity. gl_vsync rt = Some parity"
  by (simp add: gl_vsync_def cv_wait_def gl_vsync_pred_def Let_def split: option.splits)

lemma gl_sync_path_blocks_while_pending:
  "g_graphics_data rt = Some g \<Longrightarrow> has_data_to_render g \<Longrightarrow> gl_sync_path rt = None"
  by (simp add: gl_sync_path_def cv_wait_def gl_sync_path_pred_def)

section \<open>Display state machine: properties\<close>

text \<open>
  C7, the claim as stated fails. The display is windowed and asked to stay so, on the same
  screen, and the monitor has gone from 1920 by 1080 to 1280 by 720 since the last flush:
  \<^verbatim>\<open>fullscreen_pending\<close> answers true, where the spec's reading, which looks at the
  video mode only in a fullscreen-like state, is false.
\<close>

theorem pending_counterexample:
  "fullscreen_pending [primary_monitor\<lparr>video_mode := vmode_720p\<rparr>] windowed_display = Inr True \<and>
   spec_pending vmode_720p windowed_display = False"
  by (simp add: fullscreen_pending_def get_monitor_def primary_monitor_def vmode_720p_def
        windowed_display_def vmode_1080p_def spec_pending_def fullscreen_like_def
        GraphicsDisplay_fullscreen_pending_def)

text \<open>
  C7, amended. Where the current screen has a monitor, \<^verbatim>\<open>fullscreen_pending\<close> is
  true exactly when the current mode differs from the target mode, or the current screen
  differs from the target screen, or the monitor's video mode differs in width, height or
  refresh rate from the one recorded at the last flush, in whatever mode the display is.
\<close>

theorem fullscreen_pending_characterised:
  assumes "get_monitor monitors (m_fullscreen_screen d) = Inr monitor"
  shows "fullscreen_pending monitors d =
     Inr (m_fullscreen_mode d \<noteq> m_fullscreen_target_mode d \<or>
          m_fullscreen_screen d \<noteq> m_fullscreen_target_screen d \<or>
          vm_width (video_mode monitor) \<noteq> vm_width (m_last_video_mode d) \<or>
          vm_height (video_mode monitor) \<noteq> vm_height (m_last_video_mode d) \<or>
          refreshRate (video_mode monitor) \<noteq> refreshRate (m_last_video_mode d))"
  using assms
  by (auto simp: fullscreen_pending_def GraphicsDisplay_fullscreen_pending_def Let_def)

text \<open>
  The display windowed on the second monitor has nothing pending; once it is asked to move
  to screen 0 it has.
\<close>

theorem fullscreen_pending_characterised_witness:
  "get_monitor [primary_monitor, second_monitor] (m_fullscreen_screen second_display)
     = Inr second_monitor \<and>
   fullscreen_pending [primary_monitor, second_monitor] second_display = Inr False \<and>
   fullscreen_pending [primary_monitor, second_monitor]
     (set_fullscreen Windowed 0 second_display) = Inr True"
proof -
  have a: "get_monitor [primary_monitor, second_monitor] (m_fullscreen_screen second_display)
             = Inr second_monitor"
    by (simp add: get_monitor_def second_display_def)
  have b: "get_monitor [primary_monitor, second_monitor]
             (m_fullscreen_screen (set_fullscreen Windowed 0 second_display))
             = Inr second_monitor"
    by (simp add: get_monitor_def second_display_def set_fullscreen_def)
  from fullscreen_pending_characterised [OF a]
  have "fullscreen_pending [primary_monitor, second_monitor] second_display = Inr False"
    by (simp add: second_display_def second_monitor_def)
  moreover from fullscreen_pending_characterised [OF b]
  have "fullscreen_pending [primary_monitor, second_monitor]
          (set_fullscreen Windowed 0 second_display) = Inr True"
    by (simp add: second_display_def second_monitor_def set_fullscreen_def)
  ultimately show ?thesis
    using a by blast
qed

lemma fullscreen_flush_records_video_mode:
  assumes "fullscreen_flush win32 monitors d = Inr d1"
  shows "m_fullscreen_mode d1 = m_fullscreen_target_mode d \<and>
         m_fullscreen_screen d1 = m_fullscreen_target_screen d \<and>
         (\<exists>monitor. get_monitor monitors (m_fullscreen_target_screen d) = Inr monitor \<and>
            m_last_video_mode d1 = video_mode monitor)"
  using assms
  by (auto simp: fullscreen_flush_def GraphicsDisplay_fullscreen_flush_def update_fullscreen_def
        Let_def
      split: sum.splits GraphicsDisplayMode.splits option.splits prod.splits if_splits)

text \<open>
  C8, the claim as stated fails. The display is windowed at (100, 100), 640 by 480, on a
  monitor whose work area is 1920 by 1040 at the origin. After the round trip through
  Fullscreen the window is 640 by 480 again, but at (640, 280), the centre of the work
  area.
\<close>

theorem round_trip_counterexample:
  "window_geometry windowed_display = Some (100, 100, 640, 480) \<and>
   geometry_after (fullscreen_round_trip False [primary_monitor] 0 windowed_display)
     = Some (640, 280, 640, 480)"
  by (simp add: window_geometry_def geometry_after_def fullscreen_round_trip_def
      windowed_display_def example_window_def primary_monitor_def vmode_1080p_def
      display_defs int32_def Let_def)

lemma int32_in_range:
  "- 2147483648 \<le> x \<Longrightarrow> x < 2147483648 \<Longrightarrow> int32 x = x"
  by (simp add: int32_def)

lemma int32_wraps_at_int_max:
  "int32 (int32 (2147483647 + (1920 sdiv 2)) - (640 sdiv 2)) = - 2147483009"
  by (simp add: int32_def signed_divide_int_def)

text \<open>
  C8, amended. From a display that is windowed, has a window and is not minimized, the
  round trip through Fullscreen on a screen that has a monitor ends windowed, with the
  remembered width and height, and centred on the work area of that monitor: at
  x = workarea_x + workarea_width / 2 - width / 2 and
  y = workarea_y + workarea_height / 2 - height / 2, the divisions truncating and each sum
  and difference taken in 32-bit \<^verbatim>\<open>int\<close>.
\<close>

theorem round_trip_recentres:
  assumes "m_fullscreen_mode d = Windowed"
    and "m_window d = Some win"
    and "\<not> m_minimized d"
    and "get_monitor monitors screen = Inr monitor"
  shows "\<exists>d'. fullscreen_round_trip win32 monitors screen d = Inr d' \<and>
     m_fullscreen_mode d' = Windowed \<and>
     window_geometry d' =
       Some (int32 (int32 (workarea_x monitor + (workarea_width monitor sdiv 2))
                      - (m_last_windowed_width d sdiv 2)),
             int32 (int32 (workarea_y monitor + (workarea_height monitor sdiv 2))
                      - (m_last_windowed_height d sdiv 2)),
             m_last_windowed_width d, m_last_windowed_height d)"
proof -
  from assms(4) have "monitors \<noteq> []"
    by (auto simp: get_monitor_def Let_def split: if_splits)
  then have "\<exists>m. get_monitor monitors (m_fullscreen_screen d) = Inr m"
    by (auto simp: get_monitor_def Let_def)
  then obtain m0 where m0: "get_monitor monitors (m_fullscreen_screen d) = Inr m0"
    by blast
  show ?thesis
    using assms m0
    by (simp add: window_geometry_def fullscreen_round_trip_def
      render_update_fullscreen_def set_fullscreen_def update_last_fullscreen_mode_def
      fullscreen_pending_def GraphicsDisplay_fullscreen_pending_def
      minimized_def fullscreen_flush_def GraphicsDisplay_fullscreen_flush_def
      update_fullscreen_def glfwSetWindowMonitor_def Let_def)
qed

text \<open>
  The display on the second monitor, windowed at (2000, 50), 800 by 600: after the round
  trip it is at (2160, 45), the centre of the work area 1280 by 690 at (1920, 0).
\<close>

theorem round_trip_recentres_witness:
  "m_fullscreen_mode second_display = Windowed \<and>
   window_geometry second_display = Some (2000, 50, 800, 600) \<and>
   get_monitor [primary_monitor, second_monitor] 1 = Inr second_monitor \<and>
   (\<exists>d'. fullscreen_round_trip True [primary_monitor, second_monitor] 1 second_display = Inr d' \<and>
      m_fullscreen_mode d' = Windowed \<and>
      window_geometry d' = Some (2160, 45, 800, 600))"
proof -
  have a: "m_fullscreen_mode second_display = Windowed"
    by (simp add: second_display_def)
  obtain win where b: "m_window second_display = Some win"
    by (simp add: second_display_def)
  have c: "\<not> m_minimized second_display"
    by (simp add: second_display_def)
  have e: "get_monitor [primary_monitor, second_monitor] 1 = Inr second_monitor"
    by (simp add: get_monitor_def)
  have g: "window_geometry second_display = Some (2000, 50, 800, 600)"
    by (simp add: window_geometry_def second_display_def)
  from round_trip_recentres [OF a b c e, of True] obtain d' where
    "fullscreen_round_trip True [primary_monitor, second_monitor] 1 second_display = Inr d'"
    "m_fullscreen_mode d' = Windowed"
    "window_geometry d' =
       Some (int32 (int32 (workarea_x second_monitor + (workarea_width second_monitor sdiv 2))
                      - (m_last_windowed_width second_display sdiv 2)),
             int32 (int32 (workarea_y second_monitor + (workarea_height second_monitor sdiv 2))
                      - (m_last_windowed_height second_display sdiv 2)),
             m_last_windowed_width second_display, m_last_windowed_height second_display)"
    by blast
  moreover have
    "int32 (int32 (workarea_x second_monitor + (workarea_width second_monitor sdiv 2))
              - (m_last_windowed_width second_display sdiv 2)) = 2160"
    by (simp add: second_monitor_def second_display_def signed_divide_int_def int32_def)
  moreover have
    "int32 (int32 (workarea_y second_monitor + (workarea_height second_monitor sdiv 2))
              - (m_last_windowed_height second_display sdiv 2)) = 45"
    by (simp add: second_monitor_def second_display_def signed_divide_int_def int32_def)
  moreover have "m_last_windowed_width second_display = 800"
      "m_last_windowed_height second_display = 600"
    by (simp_all add: second_display_def)
  ultimately show ?thesis
    using a e g by auto
qed

section \<open>Graphics queries and button mapping: properties\<close>

text \<open>
  C9, at the failing inputs. Whatever the tables hold, as long as they have the declared
  shape, the parameter check of \<^verbatim>\<open>get_mapped_button\<close> lets pad 2 and button 16
  through, and the reads that follow leave the arrays: pad 2 is past the two controllers,
  button 16 is past the sixteen buttons of a row.
\<close>

theorem get_mapped_button_reads_out_of_bounds:
  assumes "declared_shape gamepad_idx mapping"
  shows "get_mapped_button_valid 2 16 \<and>
     get_mapped_button gamepad_idx mapping 2 0 = Inl (IndexOutOfBounds 2 2) \<and>
     get_mapped_button gamepad_idx mapping 0 16 = Inl (IndexOutOfBounds 16 16)"
proof -
  from assms have g: "length gamepad_idx = 2"
    and c: "length (ControllerButtonMapping mapping) = 2"
    and k: "length (KeyboardButtonMapping mapping) = 2"
    and cr: "length (ControllerButtonMapping mapping ! 0) = 16"
    and kr: "length (KeyboardButtonMapping mapping ! 0) = 16"
    by (simp_all add: declared_shape_def CONTROLLER_COUNT_def Button_Max_def list_all_length)
  have v: "get_mapped_button_valid 2 16"
    by (simp add: get_mapped_button_valid_def CONTROLLER_COUNT_def)
  have p: "get_mapped_button gamepad_idx mapping 2 0 = Inl (IndexOutOfBounds 2 2)"
    using g
    by (simp add: get_mapped_button_def get_mapped_button_valid_def CONTROLLER_COUNT_def
          GetGamepadState_def array_read_def)
  have b: "get_mapped_button gamepad_idx mapping 0 16 = Inl (IndexOutOfBounds 16 16)"
    using g c k cr kr
    by (simp add: get_mapped_button_def get_mapped_button_valid_def CONTROLLER_COUNT_def
          GetGamepadState_def array_read_def array_read2_def)
  from v p b show ?thesis
    by simp
qed

text \<open>
  With the example tables, where every button is mapped: pad 2 and button 16 fail, while
  the last valid pair, pad 1 and button 15, reads key 80.
\<close>

theorem get_mapped_button_reads_out_of_bounds_witness:
  "declared_shape example_gamepad_idx example_mapping \<and>
   get_mapped_button_valid 2 16 \<and>
   get_mapped_button example_gamepad_idx example_mapping 2 0 = Inl (IndexOutOfBounds 2 2) \<and>
   get_mapped_button example_gamepad_idx example_mapping 0 16 = Inl (IndexOutOfBounds 16 16) \<and>
   get_mapped_button example_gamepad_idx example_mapping 1 15 = Inr 80"
proof -
  have s: "declared_shape example_gamepad_idx example_mapping"
    by (simp add: declared_shape_def example_gamepad_idx_def example_mapping_def
          CONTROLLER_COUNT_def Button_Max_def)
  have ok: "get_mapped_button example_gamepad_idx example_mapping 1 15 = Inr 80"
    by (simp add: get_mapped_button_def get_mapped_button_valid_def CONTROLLER_COUNT_def
          GetGamepadState_def array_read_def array_read2_def example_gamepad_idx_def
          example_mapping_def)
  from get_mapped_button_reads_out_of_bounds [OF s] s ok show ?thesis
    by simp
qed

text \<open>
  C10. While \<^verbatim>\<open>GetMainDisplay\<close> is null, \<^verbatim>\<open>get_window_width\<close> and
  \<^verbatim>\<open>get_window_height\<close> answer 0 and \<^verbatim>\<open>get_fullscreen\<close> answers Windowed, and
  each leaves the display list as it found it.
\<close>

theorem queries_without_main_display:
  assumes "GetMainDisplay g_displays = None"
  shows "get_window_width g_displays = (Inr 0, g_displays) \<and>
         get_window_height win32 g_displays = (Inr 0, g_displays) \<and>
         get_fullscreen g_displays = (Windowed, g_displays)"
  using assms by (simp add: get_window_width_def get_window_height_def get_fullscreen_def)

text \<open>
  Before the main display is made the list of displays is empty.
\<close>

theorem queries_without_main_display_witness:
  "GetMainDisplay [] = None \<and>
   get_window_width [] = (Inr 0, []) \<and>
   get_window_height False [] = (Inr 0, []) \<and>
   get_fullscreen [] = (Windowed, [])"
proof -
  have a: "GetMainDisplay [] = None"
    by (simp add: GetMainDisplay_def)
  from queries_without_main_display [OF a, of False] a show ?thesis
    by simp
qed

end
